theory Spec2Isabelle
  imports Complex_Main "HOL-Library.Word"
begin

section \<open>Data model of the query replication flow\<close>

text \<open>
  The protobuf messages used by \<^verbatim>\<open>flow/workflows/qrep_flow.go\<close>. Pointer-valued
  fields that the code tests against \<^verbatim>\<open>nil\<close> or dereferences are options.
\<close>

datatype error = Error string | Wrap string error | Panic string

datatype PartitionRange =
    IntPartitionRange int int
  | TimestampPartitionRange int int
  | TIDPartitionRange "nat \<times> nat" "nat \<times> nat"

record QRepPartition =
  PartitionId :: string
  Range :: "PartitionRange option"
  FullTablePartition :: bool

record QRepPartitionBatch =
  BatchId :: "32 word"
  Partitions :: "QRepPartition list"

datatype FlowStatus =
    STATUS_UNKNOWN | STATUS_SETUP | STATUS_RUNNING | STATUS_PAUSING | STATUS_PAUSED
  | STATUS_COMPLETED | STATUS_FAILED

record QRepFlowState =
  LastPartition :: "QRepPartition option"
  NumPartitionsProcessed :: "64 word"
  NeedsResync :: bool
  CurrentFlowStatus :: FlowStatus

datatype QRepWriteType =
  QREP_WRITE_MODE_APPEND | QREP_WRITE_MODE_UPSERT | QREP_WRITE_MODE_OVERWRITE

record QRepWriteMode =
  WriteType :: QRepWriteType
  UpsertKeyColumns :: "string list"

record QRepConfig =
  FlowJobName :: string
  SourceName :: string
  DestinationName :: string
  DestinationTableIdentifier :: string
  WatermarkTable :: string
  SetupWatermarkTableOnDestination :: bool
  SyncedAtColName :: string
  SoftDeleteColName :: string
  DstTableFullResync :: bool
  InitialCopyOnly :: bool
  WriteMode :: "QRepWriteMode option"
  MaxParallelWorkers :: "32 word"
  WaitBetweenBatchesSeconds :: "32 word"
  System :: nat
  Env :: "(string \<times> string) list"
  Version :: "32 word"

definition InitialLastPartition :: QRepPartition where
  "InitialLastPartition =
     \<lparr>PartitionId = ''not-applicable-partition'', Range = None, FullTablePartition = False\<rparr>"

definition newQRepFlowState :: QRepFlowState where
  "newQRepFlowState =
     \<lparr>LastPartition = Some InitialLastPartition,
      NumPartitionsProcessed = 0,
      NeedsResync = True,
      CurrentFlowStatus = STATUS_RUNNING\<rparr>"

section \<open>Chunking the partition list\<close>

text \<open>
  Modelled from the spec: \<^verbatim>\<open>shared.DivCeil\<close> is not among the sources. The
  specification reads it as the ceiling of the quotient; on naturals with a positive
  divisor that is \<open>(x + y - 1) div y\<close> (see \<open>DivCeil_ceiling\<close> below).
\<close>

definition DivCeil :: "nat \<Rightarrow> nat \<Rightarrow> nat" where
  "DivCeil x y = (x + y - 1) div y"

text \<open>The slice expression \<^verbatim>\<open>partitions[i:end]\<close> for \<open>i \<le> end \<le> len\<close>.\<close>

definition slice :: "'a list \<Rightarrow> nat \<Rightarrow> nat \<Rightarrow> 'a list" where
  "slice xs i e = take (e - i) (drop i xs)"

text \<open>
  The loop \<^verbatim>\<open>for i := 0; i < len(partitions); i += chunkSize\<close> of
  \<^verbatim>\<open>processPartitions\<close>. The chunk size is positive at every call the code makes;
  the guard \<open>0 < chunkSize\<close> only makes the recursion total.
\<close>

function makeBatches :: "nat \<Rightarrow> nat \<Rightarrow> 'a list \<Rightarrow> 'a list list \<Rightarrow> 'a list list" where
  "makeBatches i chunkSize partitions batches =
     (if i < length partitions \<and> 0 < chunkSize
      then makeBatches (i + chunkSize) chunkSize partitions
             (batches @ [slice partitions i (min (i + chunkSize) (length partitions))])
      else batches)"
  by pat_completeness auto
termination
  by (relation "measure (\<lambda>(i, c, ps, bs). length ps - i)") auto

declare makeBatches.simps [simp del]

text \<open>
  The loop \<^verbatim>\<open>for i, parts := range batches\<close>: one batch message per slice, with
  \<^verbatim>\<open>BatchId: int32(i + 1)\<close>.
\<close>

definition toBatches :: "QRepPartition list list \<Rightarrow> QRepPartitionBatch list" where
  "toBatches batches =
     map (\<lambda>(i, parts). \<lparr>BatchId = of_nat (i + 1), Partitions = parts\<rparr>) (enumerate 0 batches)"

section \<open>The workflow's environment\<close>

text \<open>
  Modelled from the spec: the signal type \<^verbatim>\<open>model.CDCFlowSignal\<close> is not among the
  sources; the specification lists its three values.
\<close>

datatype CDCFlowSignal = NoopSignal | PauseSignal | ResumeSignal

text \<open>
  The activities the workflow executes, with the inputs the code builds for them. Table
  mappings are pairs (source, destination); rename options are pairs (current, new).
\<close>

datatype activity =
    SetupQRepMetadataTables QRepConfig
  | SetupTableSchema string "(string \<times> string) list" string nat "(string \<times> string) list" "32 word"
      \<comment> \<open>PeerName, TableMappings, FlowName, System, Env, Version\<close>
  | CreateNormalizedTable string "(string \<times> string) list" string string string
      "(string \<times> string) list" bool
      \<comment> \<open>PeerName, TableMappings, SyncedAtColName, SoftDeleteColName, FlowName, Env, IsResync\<close>
  | CreateTablesFromExisting string string "(string \<times> string) list"
      \<comment> \<open>FlowJobName, PeerName, NewToExistingTableMapping\<close>
  | ConsolidateQRepPartitions QRepConfig string
  | CleanupQRepFlow QRepConfig
  | RenameTables string string "(string \<times> string) list"
      \<comment> \<open>FlowJobName, PeerName, RenameTableOptions\<close>

text \<open>What a run of the workflow does, in order, with the result each call got.\<close>

datatype event =
    SetQueryHandler string
  | SyncStatusToCatalog FlowStatus
  | ExecuteActivity activity "error option"
  | ExecuteGetQRepPartitions QRepConfig "QRepPartition option" string "error + QRepPartition list"
  | StartWaitForNewRows QRepConfig "QRepPartition option"
  | StartPartitionWorkflow QRepConfig QRepPartitionBatch string

text \<open>
  What the blocking receive of the pause gate and the selector of the wait for new rows
  deliver, one entry per call of \<^verbatim>\<open>ReceiveWithTimeout\<close> or \<^verbatim>\<open>Select\<close>.
\<close>

datatype pause_receive = Received CDCFlowSignal | TimedOut | Cancelled error

datatype wait_select = SignalReceived CDCFlowSignal | FutureReady "error option" | ContextDone error

text \<open>
  Everything outside the workflow function: the results of activities (which may depend
  on what has been done so far) and of child workflows, the signals that arrive, and the
  helpers of the repository that are not among the sources
  (\<^verbatim>\<open>model.FlowSignalHandler\<close>, \<^verbatim>\<open>getQRepOverwriteFullRefreshMode\<close>), taken as
  parameters.
\<close>

record env =
  originalRunID :: string
  isRootWorkflow :: bool
  setQueryHandlerError :: "string \<Rightarrow> error option"
  FlowSignalHandler :: "CDCFlowSignal \<Rightarrow> CDCFlowSignal \<Rightarrow> CDCFlowSignal"
  getQRepOverwriteFullRefreshMode :: "(string \<times> string) list \<Rightarrow> bool"
  pauseReceives :: "pause_receive list"
  waitSelects :: "wait_select list"
  pendingSignals :: "CDCFlowSignal list"
  activityError :: "event list \<Rightarrow> activity \<Rightarrow> error option"
  getQRepPartitionsResult ::
    "event list \<Rightarrow> QRepConfig \<Rightarrow> QRepPartition option \<Rightarrow> string \<Rightarrow> error + QRepPartition list"
  partitionWorkflowError :: "QRepPartitionBatch \<Rightarrow> error option"
  qRepHasNewRowsResult :: "QRepConfig \<Rightarrow> QRepPartition option \<Rightarrow> error + bool"
  sleepError :: "int \<Rightarrow> error option"

text \<open>
  The mutable data of one run: the \<^verbatim>\<open>QRepFlowExecution\<close> (config, run id, active
  signal), the flow state, the local variables of \<^verbatim>\<open>QRepFlowWorkflow\<close> that later
  steps read, and the trace of events so far.
\<close>

record run =
  config :: QRepConfig
  runUUID :: string
  activeSignal :: CDCFlowSignal
  state :: QRepFlowState
  maxParallelWorkers :: nat
  fullRefresh :: bool
  lastPartition :: "QRepPartition option"
  partitions :: "QRepPartition list option"
  trace :: "event list"

text \<open>
  How a run ends: it returns with or without an error, it continues as new with the
  config and state of the run, or it waits forever for a signal or a child.
\<close>

datatype outcome = Returned "error option" | ContinueAsNew | Blocked

section \<open>The steps of the workflow\<close>

definition executeActivity :: "env \<Rightarrow> run \<Rightarrow> activity \<Rightarrow> error option \<times> run" where
  "executeActivity e r a =
     (let res = activityError e (trace r) a
      in (res, r\<lparr>trace := trace r @ [ExecuteActivity a res]\<rparr>))"

definition wrapError :: "string \<Rightarrow> error option \<times> run \<Rightarrow> error option \<times> run" where
  "wrapError msg res = (case res of (Some err, r) \<Rightarrow> (Some (Wrap msg err), r) | (None, r) \<Rightarrow> (None, r))"

definition SetupMetadataTables :: "env \<Rightarrow> run \<Rightarrow> error option \<times> run" where
  "SetupMetadataTables e r =
     wrapError ''failed to setup metadata tables''
       (executeActivity e r (SetupQRepMetadataTables (config r)))"

definition setupTableSchema :: "env \<Rightarrow> run \<Rightarrow> string \<Rightarrow> error option \<times> run" where
  "setupTableSchema e r tableName =
     executeActivity e r
       (SetupTableSchema (SourceName (config r))
          [(tableName, DestinationTableIdentifier (config r))]
          (FlowJobName (config r)) (System (config r)) (Env (config r)) (Version (config r)))"

definition setupWatermarkTableOnDestination :: "env \<Rightarrow> run \<Rightarrow> error option \<times> run" where
  "setupWatermarkTableOnDestination e r =
     (if SetupWatermarkTableOnDestination (config r) then
        (case setupTableSchema e r (WatermarkTable (config r)) of
           (Some err, r1) \<Rightarrow> (Some (Wrap ''failed to fetch schema for watermark table'' err), r1)
         | (None, r1) \<Rightarrow>
             wrapError ''failed to create watermark table''
               (executeActivity e r1
                  (CreateNormalizedTable (DestinationName (config r1))
                     [(WatermarkTable (config r1), DestinationTableIdentifier (config r1))]
                     (SyncedAtColName (config r1)) (SoftDeleteColName (config r1))
                     (FlowJobName (config r1)) (Env (config r1)) (DstTableFullResync (config r1)))))
      else (None, r))"

definition getPartitions ::
  "env \<Rightarrow> run \<Rightarrow> QRepPartition option \<Rightarrow> (error + QRepPartition list) \<times> run" where
  "getPartitions e r lastp =
     (let res = getQRepPartitionsResult e (trace r) (config r) lastp (runUUID r);
          r1 = r\<lparr>trace := trace r @ [ExecuteGetQRepPartitions (config r) lastp (runUUID r) res]\<rparr>
      in case res of
           Inl err \<Rightarrow> (Inl (Wrap ''failed to fetch partitions to replicate'' err), r1)
         | Inr ps \<Rightarrow> (Inr ps, r1))"

text \<open>The first error among the children, in the order in which they were started.\<close>

fun firstError :: "error option list \<Rightarrow> error option" where
  "firstError [] = None"
| "firstError (Some err # rest) = Some err"
| "firstError (None # rest) = firstError rest"

text \<open>
  \<^verbatim>\<open>processPartitions\<close>. The parameter \<^verbatim>\<open>maxParallelWorkers\<close> is a natural number:
  its only caller passes a value that is at least 1. A zero divisor is a run-time panic.
\<close>

definition processPartitions :: "env \<Rightarrow> run \<Rightarrow> nat \<Rightarrow> QRepPartition list \<Rightarrow> error option \<times> run" where
  "processPartitions e r maxWorkers ps =
     (if length ps = 0 then (None, r)
      else if maxWorkers = 0 then (Some (Panic ''integer divide by zero''), r)
      else
        let chunkSize = DivCeil (length ps) maxWorkers;
            batches = makeBatches 0 chunkSize ps [];
            children = toBatches batches;
            r1 = r\<lparr>trace := trace r @
                   map (\<lambda>b. StartPartitionWorkflow (config r) b (runUUID r)) children\<rparr>
        in wrapError ''failed to wait for child workflow''
             (firstError (map (partitionWorkflowError e) children), r1))"

definition consolidatePartitions :: "env \<Rightarrow> run \<Rightarrow> error option \<times> run" where
  "consolidatePartitions e r =
     (case executeActivity e r (ConsolidateQRepPartitions (config r) (runUUID r)) of
        (Some err, r1) \<Rightarrow> (Some (Wrap ''failed to consolidate partitions'' err), r1)
      | (None, r1) \<Rightarrow>
          wrapError ''failed to cleanup qrep flow''
            (executeActivity e r1 (CleanupQRepFlow (config r1))))"

text \<open>
  \<^verbatim>\<open>waitForNewRows\<close>: the child workflow is started, then the selector loop runs
  while the context is live, the child has not finished and no pause is signalled. The
  result \<open>None\<close> of the loop says that it waits forever.
\<close>

fun waitLoop ::
  "env \<Rightarrow> error option \<Rightarrow> bool \<Rightarrow> error option \<Rightarrow> CDCFlowSignal \<Rightarrow> wait_select list
     \<Rightarrow> (error option \<times> error option \<times> CDCFlowSignal) option" where
  "waitLoop e ctxErr newRows waitErr sig [] =
     (if ctxErr = None \<and> \<not> newRows \<and> sig \<noteq> PauseSignal then None
      else Some (ctxErr, waitErr, sig))"
| "waitLoop e ctxErr newRows waitErr sig (ev # rest) =
     (if ctxErr = None \<and> \<not> newRows \<and> sig \<noteq> PauseSignal then
        (case ev of
           SignalReceived v \<Rightarrow> waitLoop e ctxErr newRows waitErr (FlowSignalHandler e sig v) rest
         | FutureReady res \<Rightarrow> waitLoop e ctxErr True res sig rest
         | ContextDone err \<Rightarrow> waitLoop e (Some err) newRows waitErr sig rest)
      else Some (ctxErr, waitErr, sig))"

definition waitForNewRows :: "env \<Rightarrow> run \<Rightarrow> QRepPartition option \<Rightarrow> error option option \<times> run" where
  "waitForNewRows e r lastp =
     (let r1 = r\<lparr>trace := trace r @ [StartWaitForNewRows (config r) lastp]\<rparr>
      in case waitLoop e None False None (activeSignal r1) (waitSelects e) of
           None \<Rightarrow> (None, r1)
         | Some (ctxErr, waitErr, sig) \<Rightarrow>
             (let r2 = r1\<lparr>activeSignal := sig\<rparr>
              in case ctxErr of Some err \<Rightarrow> (Some (Some err), r2) | None \<Rightarrow> (Some waitErr, r2)))"

text \<open>\<^verbatim>\<open>strings.TrimSuffix\<close>: the string without the suffix when it ends with it.\<close>

definition TrimSuffix :: "string \<Rightarrow> string \<Rightarrow> string" where
  "TrimSuffix s suf =
     (if length suf \<le> length s \<and> drop (length s - length suf) s = suf
      then take (length s - length suf) s else s)"

definition handleTableCreationForResync :: "env \<Rightarrow> run \<Rightarrow> error option \<times> run" where
  "handleTableCreationForResync e r =
     (if NeedsResync (state r) \<and> DstTableFullResync (config r) then
        (let renamedTableIdentifier = DestinationTableIdentifier (config r) @ ''_peerdb_resync''
         in case executeActivity e r
                   (CreateTablesFromExisting (FlowJobName (config r)) (DestinationName (config r))
                      [(renamedTableIdentifier, DestinationTableIdentifier (config r))]) of
              (Some err, r1) \<Rightarrow> (Some (Wrap ''failed to create table for mirror resync'' err), r1)
            | (None, r1) \<Rightarrow>
                (None, r1\<lparr>config := (config r1)\<lparr>DestinationTableIdentifier := renamedTableIdentifier\<rparr>\<rparr>))
      else (None, r))"

definition handleTableRenameForResync :: "env \<Rightarrow> run \<Rightarrow> error option \<times> run" where
  "handleTableRenameForResync e r =
     (if NeedsResync (state r) \<and> DstTableFullResync (config r) then
        (let oldTableIdentifier = TrimSuffix (DestinationTableIdentifier (config r)) ''_peerdb_resync''
         in case setupTableSchema e r (DestinationTableIdentifier (config r)) of
              (Some err, r1) \<Rightarrow>
                (Some (Wrap (''failed to fetch schema for table '' @ DestinationTableIdentifier (config r1)) err), r1)
            | (None, r1) \<Rightarrow>
                (case executeActivity e r1
                        (RenameTables (FlowJobName (config r1)) (DestinationName (config r1))
                           [(DestinationTableIdentifier (config r1), oldTableIdentifier)]) of
                   (Some err, r2) \<Rightarrow> (Some (Wrap ''failed to execute rename tables activity'' err), r2)
                 | (None, r2) \<Rightarrow>
                     (None, r2\<lparr>config := (config r2)\<lparr>DestinationTableIdentifier := oldTableIdentifier\<rparr>,
                               state := (state r2)\<lparr>NeedsResync := False\<rparr>\<rparr>)))
      else (None, r\<lparr>state := (state r)\<lparr>NeedsResync := False\<rparr>\<rparr>))"

text \<open>
  \<^verbatim>\<open>setWorkflowQueries\<close>; the two query names are the ones the specification gives for
  \<^verbatim>\<open>shared.QRepFlowStateQuery\<close> and \<^verbatim>\<open>shared.FlowStatusQuery\<close>.
\<close>

definition setWorkflowQueries :: "env \<Rightarrow> run \<Rightarrow> error option \<times> run" where
  "setWorkflowQueries e r =
     (let r1 = r\<lparr>trace := trace r @ [SetQueryHandler ''qrep-flow-state'']\<rparr>
      in case setQueryHandlerError e ''qrep-flow-state'' of
           Some err \<Rightarrow> (Some (Wrap ''failed to set `qrep-flow-state` query handler'' err), r1)
         | None \<Rightarrow>
             wrapError ''failed to set `flow-status` query handler''
               (setQueryHandlerError e ''flow-status'',
                r1\<lparr>trace := trace r1 @ [SetQueryHandler ''flow-status'']\<rparr>))"

definition updateStatus :: "env \<Rightarrow> run \<Rightarrow> FlowStatus \<Rightarrow> run" where
  "updateStatus e r status =
     r\<lparr>state := (state r)\<lparr>CurrentFlowStatus := status\<rparr>,
       trace := trace r @ (if isRootWorkflow e then [SyncStatusToCatalog status] else [])\<rparr>"

text \<open>
  The loop of the pause gate, \<^verbatim>\<open>for q.activeSignal == model.PauseSignal\<close>. \<open>None\<close>
  says that the flow stays paused forever.
\<close>

fun pauseLoop :: "env \<Rightarrow> CDCFlowSignal \<Rightarrow> pause_receive list \<Rightarrow> (error + CDCFlowSignal) option" where
  "pauseLoop e sig [] = (if sig = PauseSignal then None else Some (Inr sig))"
| "pauseLoop e sig (rcv # rest) =
     (if sig = PauseSignal then
        (case rcv of
           Received v \<Rightarrow> pauseLoop e (FlowSignalHandler e sig v) rest
         | TimedOut \<Rightarrow> pauseLoop e sig rest
         | Cancelled err \<Rightarrow> Some (Inl err))
      else Some (Inr sig))"

definition pauseGate :: "env \<Rightarrow> run \<Rightarrow> outcome option \<times> run" where
  "pauseGate e r =
     (if CurrentFlowStatus (state r) = STATUS_PAUSING \<or> CurrentFlowStatus (state r) = STATUS_PAUSED
      then
        (let r1 = updateStatus e (r\<lparr>activeSignal := PauseSignal\<rparr>) STATUS_PAUSED
         in case pauseLoop e (activeSignal r1) (pauseReceives e) of
              None \<Rightarrow> (Some Blocked, r1)
            | Some (Inl err) \<Rightarrow> (Some (Returned (Some err)), r1)
            | Some (Inr sig) \<Rightarrow> (None, updateStatus e (r1\<lparr>activeSignal := sig\<rparr>) STATUS_RUNNING))
      else (None, r))"

text \<open>
  The block \<^verbatim>\<open>if q.activeSignal != model.PauseSignal { ... }\<close> of
  \<^verbatim>\<open>QRepFlowWorkflow\<close>: discovery, fan-out, consolidation, the rename of a resync and
  the advance of the state. \<open>Some\<close> is a return from inside the block.
\<close>

definition replicateCycle :: "env \<Rightarrow> run \<Rightarrow> outcome option \<times> run" where
  "replicateCycle e r =
     (case getPartitions e r (LastPartition (state r)) of
        (Inl err, r1) \<Rightarrow> (Some (Returned (Some (Wrap ''failed to get partitions'' err))), r1)
      | (Inr ps, r1) \<Rightarrow>
          (case processPartitions e (r1\<lparr>partitions := Some ps\<rparr>) (maxParallelWorkers r1) ps of
             (Some err, r2) \<Rightarrow> (Some (Returned (Some err)), r2)
           | (None, r2) \<Rightarrow>
               (case consolidatePartitions e r2 of
                  (Some err, r3) \<Rightarrow> (Some (Returned (Some err)), r3)
                | (None, r3) \<Rightarrow>
                    if InitialCopyOnly (config r3)
                    then (Some ContinueAsNew, updateStatus e r3 STATUS_COMPLETED)
                    else
                      (case handleTableRenameForResync e r3 of
                         (Some err, r4) \<Rightarrow> (Some (Returned (Some err)), r4)
                       | (None, r4) \<Rightarrow>
                           (let r5 = r4\<lparr>state := (state r4)\<lparr>NumPartitionsProcessed :=
                                       NumPartitionsProcessed (state r4) + of_nat (length ps)\<rparr>\<rparr>
                            in if length ps > 0 \<and> \<not> fullRefresh r5
                               then (None, r5\<lparr>state := (state r5)\<lparr>LastPartition := Some (last ps)\<rparr>\<rparr>)
                               else (None, r5))))))"

text \<open>
  The end of the cycle: the pending signals are folded into the active one, a pause sets
  the status, and the workflow continues as new with its config and state.
\<close>

definition finishCycle :: "env \<Rightarrow> run \<Rightarrow> outcome \<times> run" where
  "finishCycle e r =
     (let r1 = r\<lparr>activeSignal := foldl (FlowSignalHandler e) (activeSignal r) (pendingSignals e)\<rparr>
      in (ContinueAsNew,
          if activeSignal r1 = PauseSignal then updateStatus e r1 STATUS_PAUSED else r1))"

text \<open>
  The cursor selection: \<^verbatim>\<open>config.WriteMode\<close> is dereferenced, so a missing write mode
  is a nil dereference; the setting is read only in overwrite mode.
\<close>

definition selectCursor :: "env \<Rightarrow> run \<Rightarrow> error option \<times> run" where
  "selectCursor e r =
     (let r1 = r\<lparr>fullRefresh := False, lastPartition := LastPartition (state r)\<rparr>
      in case WriteMode (config r1) of
           None \<Rightarrow> (Some (Panic ''nil pointer dereference''), r1)
         | Some wm \<Rightarrow>
             if WriteType wm = QREP_WRITE_MODE_OVERWRITE then
               (if getQRepOverwriteFullRefreshMode e (Env (config r1))
                then (None, r1\<lparr>fullRefresh := True, lastPartition := Some InitialLastPartition\<rparr>)
                else (None, r1))
             else (None, r1))"

text \<open>The state a run works on: the one handed in, or a new one when that is nil.\<close>

definition startState :: "QRepFlowState option \<Rightarrow> QRepFlowState" where
  "startState st = (case st of None \<Rightarrow> newQRepFlowState | Some s \<Rightarrow> s)"

definition initialRun :: "env \<Rightarrow> QRepConfig \<Rightarrow> QRepFlowState option \<Rightarrow> run" where
  "initialRun e cfg st =
     \<lparr>config = cfg, runUUID = originalRunID e, activeSignal = NoopSignal,
      state = startState st,
      maxParallelWorkers = 0, fullRefresh = False, lastPartition = None, partitions = None,
      trace = []\<rparr>"

text \<open>
  \<^verbatim>\<open>QRepFlowWorkflow\<close> up to the wait for new rows: the queries, the check for a
  completed flow, the pause gate, the set-up activities, the shadow table of a resync, the
  cursor and the wait. \<open>Some\<close> is a return from this part.
\<close>

definition prepareCycle :: "env \<Rightarrow> QRepConfig \<Rightarrow> QRepFlowState option \<Rightarrow> outcome option \<times> run" where
  "prepareCycle e cfg st =
     (case setWorkflowQueries e (initialRun e cfg st) of
        (Some err, r1) \<Rightarrow> (Some (Returned (Some err)), r1)
      | (None, r1) \<Rightarrow>
          if CurrentFlowStatus (state r1) = STATUS_COMPLETED then (Some (Returned None), r1)
          else
            (case pauseGate e r1 of
               (Some out, r2) \<Rightarrow> (Some out, r2)
             | (None, r2) \<Rightarrow>
                 (case setupWatermarkTableOnDestination e
                         (r2\<lparr>maxParallelWorkers :=
                               (if MaxParallelWorkers (config r2) > 0
                                then unat (MaxParallelWorkers (config r2)) else 16)\<rparr>) of
                    (Some err, r3) \<Rightarrow>
                      (Some (Returned (Some (Wrap ''failed to setup watermark table'' err))), r3)
                  | (None, r3) \<Rightarrow>
                      (case SetupMetadataTables e r3 of
                         (Some err, r4) \<Rightarrow>
                           (Some (Returned (Some (Wrap ''failed to setup metadata tables'' err))), r4)
                       | (None, r4) \<Rightarrow>
                           (case handleTableCreationForResync e r4 of
                              (Some err, r5) \<Rightarrow> (Some (Returned (Some err)), r5)
                            | (None, r5) \<Rightarrow>
                                (case selectCursor e r5 of
                                   (Some err, r6) \<Rightarrow> (Some (Returned (Some err)), r6)
                                 | (None, r6) \<Rightarrow>
                                     if \<not> InitialCopyOnly (config r6) \<and> lastPartition r6 \<noteq> None then
                                       (case waitForNewRows e r6 (lastPartition r6) of
                                          (None, r7) \<Rightarrow> (Some Blocked, r7)
                                        | (Some (Some err), r7) \<Rightarrow> (Some (Returned (Some err)), r7)
                                        | (Some None, r7) \<Rightarrow> (None, r7))
                                     else (None, r6)))))))"

text \<open>
  The whole of \<^verbatim>\<open>QRepFlowWorkflow\<close>: one cycle. The result is how the run ends,
  with the config and state it hands on and the events it performed.
\<close>

definition QRepFlowWorkflow :: "env \<Rightarrow> QRepConfig \<Rightarrow> QRepFlowState option \<Rightarrow> outcome \<times> run" where
  "QRepFlowWorkflow e cfg st =
     (case prepareCycle e cfg st of
        (Some out, r) \<Rightarrow> (out, r)
      | (None, r) \<Rightarrow>
          if activeSignal r \<noteq> PauseSignal then
            (case replicateCycle e r of
               (Some out, r') \<Rightarrow> (out, r')
             | (None, r') \<Rightarrow> finishCycle e r')
          else finishCycle e r)"

section \<open>The wait for new rows\<close>

text \<open>
  One run of \<^verbatim>\<open>QRepWaitForNewRowsWorkflow\<close>. Durations are nanoseconds, as in
  \<^verbatim>\<open>time.Duration\<close>; a 32-bit number of seconds never overflows it.
\<close>

datatype wait_event =
    ExecuteQRepHasNewRows QRepConfig "QRepPartition option" "error + bool"
  | Sleep int "error option"

datatype wait_outcome = WaitReturned "error option" | WaitContinueAsNew QRepConfig "QRepPartition option"

definition Second :: int where
  "Second = 1000000000"

definition QRepWaitForNewRowsWorkflow ::
  "env \<Rightarrow> QRepConfig \<Rightarrow> QRepPartition option \<Rightarrow> wait_outcome \<times> wait_event list" where
  "QRepWaitForNewRowsWorkflow e cfg lastp =
     (let res = qRepHasNewRowsResult e cfg lastp;
          t1 = [ExecuteQRepHasNewRows cfg lastp res]
      in case res of
           Inl err \<Rightarrow> (WaitReturned (Some (Wrap ''error checking for new rows'' err)), t1)
         | Inr hasNewRows \<Rightarrow>
             (case WriteMode cfg of
                None \<Rightarrow> (WaitReturned (Some (Panic ''nil pointer dereference'')), t1)
              | Some wm \<Rightarrow>
                  (let optedForOverwrite = (WriteType wm = QREP_WRITE_MODE_OVERWRITE);
                       fullRefresh = (optedForOverwrite \<and> getQRepOverwriteFullRefreshMode e (Env cfg))
                   in if \<not> hasNewRows \<or> fullRefresh then
                        (let waitBetweenBatches =
                               (if WaitBetweenBatchesSeconds cfg > 0
                                then int (unat (WaitBetweenBatchesSeconds cfg)) * Second
                                else 5 * Second);
                             sleepErr = sleepError e waitBetweenBatches;
                             t2 = t1 @ [Sleep waitBetweenBatches sleepErr]
                         in case sleepErr of
                              Some err \<Rightarrow> (WaitReturned (Some err), t2)
                            | None \<Rightarrow>
                                if fullRefresh then (WaitReturned None, t2)
                                else (WaitContinueAsNew cfg lastp, t2))
                      else (WaitReturned None, t1))))"

section \<open>Dynamic settings\<close>

text \<open>
  The catalog and the process environment, as \<^verbatim>\<open>dynLookup\<close> sees them: whether the
  connection pool is available, what the query for a key yields (no row, another error,
  or a row with its two nullable text columns), and the environment variables.
\<close>

datatype query_result = ErrNoRows | QueryError error | Row "string option" "string option"

record settings =
  catalogPoolError :: "error option"
  queryRow :: "string \<Rightarrow> query_result"
  LookupEnv :: "string \<Rightarrow> string option"

text \<open>The \<^verbatim>\<open>String\<close> field of a scanned \<^verbatim>\<open>pgtype.Text\<close>: empty for NULL.\<close>

definition textString :: "string option \<Rightarrow> string" where
  "textString t = (case t of None \<Rightarrow> [] | Some v \<Rightarrow> v)"

definition dynLookup :: "settings \<Rightarrow> string \<Rightarrow> error + string" where
  "dynLookup s key =
     (case catalogPoolError s of
        Some err \<Rightarrow> Inl (Wrap ''failed to get catalog connection pool'' err)
      | None \<Rightarrow>
          (case queryRow s key of
             ErrNoRows \<Rightarrow>
               (case LookupEnv s key of
                  Some val \<Rightarrow> Inr val
                | None \<Rightarrow> Inl (Wrap ''failed to get key'' (Error ''no rows in result set'')))
           | QueryError err \<Rightarrow> Inl (Wrap ''failed to get key'' err)
           | Row val default_value \<Rightarrow>
               (case val of
                  None \<Rightarrow>
                    (case LookupEnv s key of
                       Some v \<Rightarrow> Inr v
                     | None \<Rightarrow> Inr (textString default_value))
                | Some v \<Rightarrow> Inr v)))"

text \<open>
  The parsers of Go's \<^verbatim>\<open>strconv\<close> that the typed getters call, written out from
  their documentation: \<^verbatim>\<open>ParseBool\<close> accepts exactly twelve spellings;
  \<^verbatim>\<open>ParseUint(s, 10, 64)\<close> accepts a non-empty string of decimal digits whose value
  fits 64 bits; \<^verbatim>\<open>ParseInt(s, 10, 64)\<close> accepts an optional sign before such digits
  and a value that fits 64 bits signed.
\<close>

definition ParseBool :: "string \<Rightarrow> bool option" where
  "ParseBool str =
     (if str \<in> set [''1'', ''t'', ''T'', ''TRUE'', ''true'', ''True''] then Some True
      else if str \<in> set [''0'', ''f'', ''F'', ''FALSE'', ''false'', ''False''] then Some False
      else None)"

definition digitValue :: "char \<Rightarrow> nat option" where
  "digitValue c =
     (if of_char c \<ge> (48::nat) \<and> of_char c \<le> (57::nat) then Some (of_char c - 48) else None)"

fun parseDigits :: "nat \<Rightarrow> string \<Rightarrow> nat option" where
  "parseDigits acc [] = Some acc"
| "parseDigits acc (c # cs) =
     (case digitValue c of None \<Rightarrow> None | Some d \<Rightarrow> parseDigits (acc * 10 + d) cs)"

definition ParseUint :: "string \<Rightarrow> nat option" where
  "ParseUint str =
     (if str = [] then None
      else case parseDigits 0 str of
             None \<Rightarrow> None
           | Some n \<Rightarrow> if n < 2 ^ 64 then Some n else None)"

definition ParseInt :: "string \<Rightarrow> int option" where
  "ParseInt str =
     (case str of
        [] \<Rightarrow> None
      | c # cs \<Rightarrow>
          (let neg = (c = CHR ''-'');
               digits = (if c = CHR ''+'' \<or> c = CHR ''-'' then cs else str)
           in if digits = [] then None
              else case parseDigits 0 digits of
                     None \<Rightarrow> None
                   | Some n \<Rightarrow>
                       if \<not> neg \<and> n \<ge> 2 ^ 63 then None
                       else if neg \<and> n > 2 ^ 63 then None
                       else Some (if neg then - int n else int n)))"

text \<open>
  The typed getters; the numeric ones convert the 64-bit result to the requested integer
  type \<open>T\<close>, here a word of any length.
\<close>

definition dynamicConfSigned :: "settings \<Rightarrow> string \<Rightarrow> error + 'a::len word" where
  "dynamicConfSigned s key =
     (case dynLookup s key of
        Inl err \<Rightarrow> Inl err
      | Inr v \<Rightarrow>
          (case ParseInt v of
             None \<Rightarrow> Inl (Wrap ''failed to parse as int64'' (Error ''strconv.ParseInt''))
           | Some res \<Rightarrow> Inr (of_int res)))"

definition dynamicConfUnsigned :: "settings \<Rightarrow> string \<Rightarrow> error + 'a::len word" where
  "dynamicConfUnsigned s key =
     (case dynLookup s key of
        Inl err \<Rightarrow> Inl err
      | Inr v \<Rightarrow>
          (case ParseUint v of
             None \<Rightarrow> Inl (Wrap ''failed to parse as int64'' (Error ''strconv.ParseUint''))
           | Some res \<Rightarrow> Inr (of_nat res)))"

definition dynamicConfBool :: "settings \<Rightarrow> string \<Rightarrow> error + bool" where
  "dynamicConfBool s key =
     (case dynLookup s key of
        Inl err \<Rightarrow> Inl err
      | Inr v \<Rightarrow>
          (case ParseBool v of
             None \<Rightarrow> Inl (Wrap ''failed to parse bool'' (Error ''strconv.ParseBool''))
           | Some res \<Rightarrow> Inr res))"

definition PeerDBSlotLagMBAlertThreshold :: "settings \<Rightarrow> error + 32 word" where
  "PeerDBSlotLagMBAlertThreshold s = dynamicConfUnsigned s ''PEERDB_SLOT_LAG_MB_ALERT_THRESHOLD''"

definition PeerDBBigQueryEnableSyncedAtPartitioning :: "settings \<Rightarrow> error + bool" where
  "PeerDBBigQueryEnableSyncedAtPartitioning s =
     dynamicConfBool s ''PEERDB_BIGQUERY_ENABLE_SYNCED_AT_PARTITIONING_BY_DAYS''"

section \<open>Record items as a JSON map\<close>

text \<open>
  A floating-point value is finite, not a number, or an infinity with a sign; only this
  classification matters to \<^verbatim>\<open>math.IsNaN\<close> and \<^verbatim>\<open>math.IsInf\<close>. A finite value
  is kept as mantissa and exponent.
\<close>

datatype float = Finite int int | NaN | Inf bool

fun IsNaN :: "float \<Rightarrow> bool" where
  "IsNaN NaN = True"
| "IsNaN _ = False"

text \<open>\<^verbatim>\<open>math.IsInf(f, 0)\<close>: an infinity of either sign.\<close>

fun IsInf :: "float \<Rightarrow> bool" where
  "IsInf (Inf _) = True"
| "IsInf _ = False"

text \<open>
  Modelled from the spec: the value types of \<^verbatim>\<open>shared/types\<close> are not among the
  sources; the constructors are the cases of the type switch in \<^verbatim>\<open>toMap\<close>, and
  \<open>QValueOther\<close> stands for every other kind, carrying what its \<^verbatim>\<open>Value()\<close>
  returns. Times are offsets from the zero time, decimals are opaque.
\<close>

datatype any =
    ANil | ABool bool | AInt int | AString string | AUUID string
  | AFloat64 float | AFloat32 float
  | AStrings "string list" | AArray "any list" | AMap "(string \<times> any) list"

datatype QValue =
    QValueUUID string
  | QValueQChar char
  | QValueString string
  | QValueJSON string
  | QValueHStore string
  | QValueTimestamp int
  | QValueTimestampTZ int
  | QValueDate int
  | QValueTime int
  | QValueTimeTZ int
  | QValueArrayDate "int list"
  | QValueNumeric "int \<times> int"
  | QValueArrayNumeric "(int \<times> int) list"
  | QValueFloat64 float
  | QValueFloat32 float
  | QValueArrayFloat64 "float list"
  | QValueArrayFloat32 "float list"
  | QValueOther any

text \<open>
  The library functions \<^verbatim>\<open>toMap\<close> calls, as parameters: time formatting by
  layout, the decimal's \<^verbatim>\<open>String()\<close>, \<^verbatim>\<open>datatypes.ParseHstore\<close> and
  \<^verbatim>\<open>json.Unmarshal\<close> into a map.
\<close>

record lib =
  Format :: "string \<Rightarrow> int \<Rightarrow> string"
  DecimalString :: "int \<times> int \<Rightarrow> string"
  ParseHstore :: "string \<Rightarrow> error + string"
  Unmarshal :: "string \<Rightarrow> error + (string \<times> any) list"

record ToJSONOptions =
  UnnestColumns :: "string list"
  HStoreAsJSON :: bool

definition maxValueLength :: nat where
  "maxValueLength = 15 * 1024 * 1024"

definition nullableFloat64 :: "float \<Rightarrow> any" where
  "nullableFloat64 val = (if IsNaN val \<or> IsInf val then ANil else AFloat64 val)"

definition nullableFloat32 :: "float \<Rightarrow> any" where
  "nullableFloat32 val = (if IsNaN val \<or> IsInf val then ANil else AFloat32 val)"

text \<open>
  The body of the loop of \<^verbatim>\<open>toMap\<close> for one column: the map so far, the column
  and its value (\<open>None\<close> for a nil value).
\<close>

fun toMapColumn ::
  "lib \<Rightarrow> ToJSONOptions \<Rightarrow> (string \<rightharpoonup> any) \<Rightarrow> string \<Rightarrow> QValue option \<Rightarrow> error + (string \<rightharpoonup> any)" where
  "toMapColumn L opts js col None = Inr (js(col \<mapsto> ANil))"
| "toMapColumn L opts js col (Some (QValueUUID v)) = Inr (js(col \<mapsto> AUUID v))"
| "toMapColumn L opts js col (Some (QValueQChar v)) = Inr (js(col \<mapsto> AString [v]))"
| "toMapColumn L opts js col (Some (QValueString strVal)) =
     (if length strVal > maxValueLength then Inr (js(col \<mapsto> AString []))
      else Inr (js(col \<mapsto> AString strVal)))"
| "toMapColumn L opts js col (Some (QValueJSON v)) =
     (if length v > maxValueLength then Inr (js(col \<mapsto> AString ''{}''))
      else if col \<in> set (UnnestColumns opts) then
        (case Unmarshal L v of
           Inl err \<Rightarrow> Inl err
         | Inr unnestStruct \<Rightarrow> Inr (foldl (\<lambda>m (k, x). m(k \<mapsto> x)) js unnestStruct))
      else Inr (js(col \<mapsto> AString v)))"
| "toMapColumn L opts js col (Some (QValueHStore hstoreVal)) =
     (if \<not> HStoreAsJSON opts then Inr (js(col \<mapsto> AString hstoreVal))
      else
        (case ParseHstore L hstoreVal of
           Inl err \<Rightarrow> Inl (Wrap (''unable to convert hstore column '' @ col @ '' to json'') err)
         | Inr jsonVal \<Rightarrow>
             if length jsonVal > maxValueLength then Inr (js(col \<mapsto> AString []))
             else Inr (js(col \<mapsto> AString jsonVal))))"
| "toMapColumn L opts js col (Some (QValueTimestamp v)) =
     Inr (js(col \<mapsto> AString (Format L ''2006-01-02 15:04:05.999999'' v)))"
| "toMapColumn L opts js col (Some (QValueTimestampTZ v)) =
     Inr (js(col \<mapsto> AString (Format L ''2006-01-02 15:04:05.999999-0700'' v)))"
| "toMapColumn L opts js col (Some (QValueDate v)) =
     Inr (js(col \<mapsto> AString (Format L ''2006-01-02'' v)))"
| "toMapColumn L opts js col (Some (QValueTime v)) =
     Inr (js(col \<mapsto> AString (Format L ''15:04:05.999999'' (0 + v))))"
| "toMapColumn L opts js col (Some (QValueTimeTZ v)) =
     Inr (js(col \<mapsto> AString (Format L ''15:04:05.999999'' (0 + v))))"
| "toMapColumn L opts js col (Some (QValueArrayDate dateArr)) =
     Inr (js(col \<mapsto> AStrings (map (Format L ''2006-01-02'') dateArr)))"
| "toMapColumn L opts js col (Some (QValueNumeric v)) =
     Inr (js(col \<mapsto> AString (DecimalString L v)))"
| "toMapColumn L opts js col (Some (QValueArrayNumeric numericArr)) =
     Inr (js(col \<mapsto> AArray (map (\<lambda>val. AString (DecimalString L val)) numericArr)))"
| "toMapColumn L opts js col (Some (QValueFloat64 v)) =
     (if IsNaN v \<or> IsInf v then Inr (js(col \<mapsto> ANil)) else Inr (js(col \<mapsto> AFloat64 v)))"
| "toMapColumn L opts js col (Some (QValueFloat32 v)) =
     (if IsNaN v \<or> IsInf v then Inr (js(col \<mapsto> ANil)) else Inr (js(col \<mapsto> AFloat32 v)))"
| "toMapColumn L opts js col (Some (QValueArrayFloat64 floatArr)) =
     Inr (js(col \<mapsto> AArray (map nullableFloat64 floatArr)))"
| "toMapColumn L opts js col (Some (QValueArrayFloat32 floatArr)) =
     Inr (js(col \<mapsto> AArray (map nullableFloat32 floatArr)))"
| "toMapColumn L opts js col (Some (QValueOther v)) = Inr (js(col \<mapsto> v))"

text \<open>
  \<^verbatim>\<open>toMap\<close>: the columns of the record, in the order in which the iteration over
  the Go map visits them (any order may occur), each with a distinct name.
\<close>

fun toMapLoop ::
  "lib \<Rightarrow> ToJSONOptions \<Rightarrow> (string \<rightharpoonup> any) \<Rightarrow> (string \<times> QValue option) list \<Rightarrow> error + (string \<rightharpoonup> any)" where
  "toMapLoop L opts js [] = Inr js"
| "toMapLoop L opts js ((col, qv) # rest) =
     (case toMapColumn L opts js col qv of
        Inl err \<Rightarrow> Inl err
      | Inr js' \<Rightarrow> toMapLoop L opts js' rest)"

definition toMap :: "lib \<Rightarrow> ToJSONOptions \<Rightarrow> (string \<times> QValue option) list \<Rightarrow> error + (string \<rightharpoonup> any)" where
  "toMap L opts ColToVal = toMapLoop L opts Map.empty ColToVal"

section \<open>Reading a trace\<close>

text \<open>The batches of the child partition workflows a trace starts, in order.\<close>

fun startedBatches :: "event list \<Rightarrow> QRepPartitionBatch list" where
  "startedBatches [] = []"
| "startedBatches (StartPartitionWorkflow c b u # es) = b # startedBatches es"
| "startedBatches (ev # es) = startedBatches es"

fun isCreateTablesFromExisting :: "event \<Rightarrow> bool" where
  "isCreateTablesFromExisting (ExecuteActivity (CreateTablesFromExisting f p m) res) = True"
| "isCreateTablesFromExisting ev = False"

fun isRenameTables :: "event \<Rightarrow> bool" where
  "isRenameTables (ExecuteActivity (RenameTables f p m) res) = True"
| "isRenameTables ev = False"

section \<open>Example inputs\<close>

definition examplePartition :: "string \<Rightarrow> QRepPartition" where
  "examplePartition name = \<lparr>PartitionId = name, Range = None, FullTablePartition = False\<rparr>"

definition fivePartitions :: "QRepPartition list" where
  "fivePartitions = map examplePartition [''p1'', ''p2'', ''p3'', ''p4'', ''p5'']"

text \<open>An append-mode config for the table \<open>t\<close> with two parallel workers.\<close>

definition exampleConfig :: QRepConfig where
  "exampleConfig =
     \<lparr>FlowJobName = ''flow'', SourceName = ''src'', DestinationName = ''dst'',
      DestinationTableIdentifier = ''t'', WatermarkTable = ''w'',
      SetupWatermarkTableOnDestination = False, SyncedAtColName = [], SoftDeleteColName = [],
      DstTableFullResync = False, InitialCopyOnly = False,
      WriteMode = Some \<lparr>WriteType = QREP_WRITE_MODE_APPEND, UpsertKeyColumns = []\<rparr>,
      MaxParallelWorkers = 2, WaitBetweenBatchesSeconds = 0, System = 0, Env = [], Version = 0\<rparr>"

text \<open>
  A signal handler in which a pause takes effect on a running flow and a no-op signal
  resumes a paused one.
\<close>

definition exampleHandler :: "CDCFlowSignal \<Rightarrow> CDCFlowSignal \<Rightarrow> CDCFlowSignal" where
  "exampleHandler active v =
     (if v = PauseSignal \<and> active = NoopSignal then v
      else if v = NoopSignal \<and> active = PauseSignal then v
      else active)"

text \<open>
  An environment in which every activity and child succeeds, the wait for new rows ends
  at once, no signal arrives, discovery returns the given partitions and the full-refresh
  setting has the given value.
\<close>

definition exampleEnv :: "bool \<Rightarrow> QRepPartition list \<Rightarrow> env" where
  "exampleEnv refresh ps =
     \<lparr>originalRunID = ''run'', isRootWorkflow = True,
      setQueryHandlerError = (\<lambda>name. None),
      FlowSignalHandler = exampleHandler,
      getQRepOverwriteFullRefreshMode = (\<lambda>vars. refresh),
      pauseReceives = [], waitSelects = [FutureReady None], pendingSignals = [],
      activityError = (\<lambda>tr a. None),
      getQRepPartitionsResult = (\<lambda>tr c p u. Inr ps),
      partitionWorkflowError = (\<lambda>b. None),
      qRepHasNewRowsResult = (\<lambda>c p. Inr True),
      sleepError = (\<lambda>d. None)\<rparr>"

text \<open>A state left by an earlier cycle: the cursor stands at partition \<open>p0\<close>.\<close>

definition advancedState :: QRepFlowState where
  "advancedState =
     \<lparr>LastPartition = Some (examplePartition ''p0''), NumPartitionsProcessed = 1,
      NeedsResync = False, CurrentFlowStatus = STATUS_RUNNING\<rparr>"

definition overwriteConfig :: QRepConfig where
  "overwriteConfig =
     exampleConfig\<lparr>WriteMode := Some \<lparr>WriteType = QREP_WRITE_MODE_OVERWRITE, UpsertKeyColumns = []\<rparr>\<rparr>"

text \<open>Variants of the example: initial copy only, a full resync of the destination table.\<close>

definition initialCopyConfig :: QRepConfig where
  "initialCopyConfig = exampleConfig\<lparr>InitialCopyOnly := True\<rparr>"

definition resyncConfig :: QRepConfig where
  "resyncConfig = exampleConfig\<lparr>DstTableFullResync := True\<rparr>"

text \<open>An environment in which a pause signal arrives during the wait for new rows.\<close>

definition pausingEnv :: env where
  "pausingEnv = (exampleEnv False fivePartitions)\<lparr>waitSelects := [SignalReceived PauseSignal]\<rparr>"

text \<open>Settings with a row whose value is \<open>true\<close>, and settings with neither row nor variable.\<close>

definition exampleSettings :: settings where
  "exampleSettings =
     \<lparr>catalogPoolError = None,
      queryRow = (\<lambda>key. Row (Some ''true'') (Some ''false'')),
      LookupEnv = (\<lambda>key. None)\<rparr>"

definition noRowSettings :: settings where
  "noRowSettings =
     \<lparr>catalogPoolError = None, queryRow = (\<lambda>key. ErrNoRows), LookupEnv = (\<lambda>key. None)\<rparr>"

text \<open>
  The keys that the unnesting of JSON columns writes into the map: for a column that is
  listed for unnesting and not over the size limit, the keys of its parsed value.
\<close>

fun unnestedKeys :: "lib \<Rightarrow> ToJSONOptions \<Rightarrow> (string \<times> QValue option) list \<Rightarrow> string list" where
  "unnestedKeys L opts [] = []"
| "unnestedKeys L opts ((c, Some (QValueJSON v)) # rest) =
     (if length v \<le> maxValueLength \<and> c \<in> set (UnnestColumns opts)
      then (case Unmarshal L v of Inl err \<Rightarrow> [] | Inr kvs \<Rightarrow> map fst kvs) else [])
     @ unnestedKeys L opts rest"
| "unnestedKeys L opts ((c, qv) # rest) = unnestedKeys L opts rest"

text \<open>
  A record with a string of one byte more than the limit, a JSON value of that size, a
  NaN and an array with an infinity in it; library functions that return fixed values;
  options without unnesting.
\<close>

definition longString :: string where
  "longString = replicate 15728641 (CHR ''x'')"

definition lossyItems :: "(string \<times> QValue option) list" where
  "lossyItems =
     [(''s'', Some (QValueString longString)),
      (''j'', Some (QValueJSON longString)),
      (''f'', Some (QValueFloat64 NaN)),
      (''g'', Some (QValueFloat32 (Inf True))),
      (''a'', Some (QValueArrayFloat64 [Finite 1 0, Inf False, NaN]))]"

definition exampleLib :: lib where
  "exampleLib =
     \<lparr>Format = (\<lambda>layout t. layout), DecimalString = (\<lambda>d. ''0''),
      ParseHstore = (\<lambda>v. Inr v), Unmarshal = (\<lambda>v. Inr [])\<rparr>"

definition plainOptions :: ToJSONOptions where
  "plainOptions = \<lparr>UnnestColumns = [], HStoreAsJSON = True\<rparr>"

section \<open>Arithmetic of the chunking\<close>

lemma DivCeil_upper: "0 < y \<Longrightarrow> x \<le> DivCeil x y * y"
proof -
  assume y: "0 < y"
  have "x + y - 1 = (x + y - 1) div y * y + (x + y - 1) mod y" by simp
  moreover have "(x + y - 1) mod y \<le> y - 1"
    using mod_less_divisor[OF y, of "x + y - 1"] by linarith
  ultimately have "x + y - 1 \<le> (x + y - 1) div y * y + (y - 1)" by linarith
  then show ?thesis using y by (simp add: DivCeil_def)
qed

lemma DivCeil_lower: "0 < y \<Longrightarrow> 0 < x \<Longrightarrow> (DivCeil x y - 1) * y < x"
proof -
  assume y: "0 < y" and x: "0 < x"
  have "(x + y - 1) div y * y \<le> x + y - 1" by simp
  then have "DivCeil x y * y \<le> x + y - 1" by (simp add: DivCeil_def)
  moreover have "1 \<le> DivCeil x y" using x y by (simp add: DivCeil_def div_greater_zero_iff Suc_le_eq)
  ultimately show ?thesis using x y by (simp add: diff_mult_distrib)
qed

lemma DivCeil_ceiling: "0 < y \<Longrightarrow> int (DivCeil x y) = \<lceil>real x / real y\<rceil>"
proof (cases "x = 0")
  case True
  assume "0 < y"
  then show ?thesis using True by (simp add: DivCeil_def)
next
  case False
  assume y: "0 < y"
  have "real x \<le> real (DivCeil x y * y)"
    using DivCeil_upper[OF y, of x] by (simp only: of_nat_le_iff)
  then have u: "real x \<le> real (DivCeil x y) * real y" by simp
  have "real ((DivCeil x y - 1) * y) < real x"
    using DivCeil_lower[OF y, of x] False by (simp only: of_nat_less_iff)
  then have l: "real (DivCeil x y - 1) * real y < real x" by simp
  have pos: "1 \<le> DivCeil x y" using False y by (simp add: DivCeil_def div_greater_zero_iff Suc_le_eq)
  have "\<lceil>real x / real y\<rceil> = int (DivCeil x y)"
  proof (rule ceiling_unique)
    show "of_int (int (DivCeil x y)) - 1 < real x / real y"
      using l y pos by (simp add: pos_less_divide_eq of_nat_diff)
    show "real x / real y \<le> of_int (int (DivCeil x y))"
      using u y by (simp add: pos_divide_le_eq)
  qed
  then show ?thesis by simp
qed

lemma DivCeil_Suc: "0 < c \<Longrightarrow> i < n \<Longrightarrow> DivCeil (n - i) c = Suc (DivCeil (n - (i + c)) c)"
proof (cases "i + c \<le> n")
  case True
  assume c: "0 < c"
  obtain m where m: "n = i + c + m" using True le_Suc_ex by blast
  have "(m + c + c - 1) div c = ((m + c - 1) + c) div c" using c by simp
  also have "\<dots> = Suc ((m + c - 1) div c)" using c by (simp only: div_add_self2)
  finally show ?thesis by (simp add: DivCeil_def m ac_simps)
next
  case False
  assume c: "0 < c" and i: "i < n"
  have a: "c * 1 \<le> n - i + c - 1" using i by simp
  have b: "n - i + c - 1 < c * Suc 1" using False c by simp
  have "(n - i + c - 1) div c = 1"
    using a b by (rule div_nat_eqI)
  moreover have "(n - (i + c) + c - 1) div c = 0" using False c by simp
  ultimately show ?thesis by (simp add: DivCeil_def)
qed

lemma slice_chunk: "i < length P \<Longrightarrow> slice P i (min (i + c) (length P)) = take c (drop i P)"
  by (simp add: slice_def min_def)

lemma makeBatches_eq:
  "0 < c \<Longrightarrow> makeBatches i c P acc =
     acc @ map (\<lambda>k. take c (drop (i + k * c) P)) [0..<DivCeil (length P - i) c]"
proof (induction i c P acc rule: makeBatches.induct)
  case (1 i c P acc)
  show ?case
  proof (cases "i < length P")
    case True
    have "makeBatches i c P acc = makeBatches (i + c) c P (acc @ [take c (drop i P)])"
      using True 1(2) by (subst makeBatches.simps) (simp add: slice_chunk)
    also have "\<dots> = (acc @ [take c (drop i P)]) @
        map (\<lambda>k. take c (drop (i + c + k * c) P)) [0..<DivCeil (length P - (i + c)) c]"
      using 1(1) True 1(2) by (simp add: slice_chunk)
    also have "\<dots> = acc @ map (\<lambda>k. take c (drop (i + k * c) P)) [0..<Suc (DivCeil (length P - (i + c)) c)]"
      by (simp add: upt_conv_Cons map_Suc_upt[symmetric] del: upt_Suc add: ac_simps)
    finally show ?thesis using DivCeil_Suc[OF 1(2) True] by simp
  next
    case False
    then show ?thesis using 1(2) by (subst makeBatches.simps) (simp add: DivCeil_def)
  qed
qed

lemma concat_chunks: "concat (map (\<lambda>k. take c (drop (k * c) P)) [0..<n]) = take (n * c) P"
proof (induction n)
  case 0
  show ?case by simp
next
  case (Suc n)
  have "take (Suc n * c) P = take (n * c + c) P" by (simp add: add.commute)
  also have "\<dots> = take (n * c) P @ take c (drop (n * c) P)" by (rule take_add)
  finally show ?case using Suc by simp
qed

lemma DivCeil_pos: "0 < K \<Longrightarrow> 0 < n \<Longrightarrow> 0 < DivCeil n K"
  by (simp add: DivCeil_def div_greater_zero_iff)

lemma DivCeil_le: "0 < K \<Longrightarrow> 0 < n \<Longrightarrow> DivCeil n (DivCeil n K) \<le> K"
proof -
  assume K: "0 < K" and n: "0 < n"
  let ?c = "DivCeil n K"
  have c: "0 < ?c" using K n by (rule DivCeil_pos)
  have "n \<le> ?c * K" using DivCeil_upper[OF K, of n] .
  then have "n + ?c - 1 < Suc K * ?c" using c by (simp add: mult.commute)
  then have "(n + ?c - 1) div ?c < Suc K" by (rule less_mult_imp_div_less)
  then show ?thesis by (simp add: DivCeil_def)
qed


lemma startedBatches_map [simp]:
  "startedBatches (map (\<lambda>b. StartPartitionWorkflow c b u) bs) = bs"
  by (induction bs) simp_all

lemma snd_wrapError [simp]: "snd (wrapError msg x) = snd x"
  by (cases x) (auto simp: wrapError_def split: option.splits)

lemma fst_wrapError_None [simp]: "fst (wrapError msg x) = None \<longleftrightarrow> fst x = None"
  by (cases x) (auto simp: wrapError_def split: option.splits)

lemma length_toBatches [simp]: "length (toBatches bs) = length bs"
  by (simp add: toBatches_def)

lemma nth_toBatches:
  "i < length bs \<Longrightarrow> toBatches bs ! i = \<lparr>BatchId = of_nat (i + 1), Partitions = bs ! i\<rparr>"
  by (simp add: toBatches_def nth_enumerate_eq)

lemma map_Partitions_toBatches [simp]: "map Partitions (toBatches bs) = bs"
  by (rule nth_equalityI) (simp_all add: nth_toBatches)

lemma makeBatches_chunks:
  "0 < c \<Longrightarrow> makeBatches 0 c P [] = map (\<lambda>k. take c (drop (k * c) P)) [0..<DivCeil (length P) c]"
  using makeBatches_eq[of c 0 P "[]"] by simp

lemma concat_makeBatches: "0 < c \<Longrightarrow> concat (makeBatches 0 c P []) = P"
  using DivCeil_upper[of c "length P"] by (simp add: makeBatches_chunks concat_chunks)

lemma sint_word_of_nat32: "n < 2 ^ 31 \<Longrightarrow> sint (of_nat n :: 32 word) = int n"
proof -
  assume "n < 2 ^ 31"
  then have "int n < 2 ^ 31" by (metis of_nat_less_numeral_power_cancel_iff)
  then have "signed_take_bit 31 (int n) = int n"
    by (simp add: signed_take_bit_int_eq_self)
  then show ?thesis by (simp only: signed_of_nat) simp
qed

lemma DivCeil_le_self: "0 < c \<Longrightarrow> DivCeil n c \<le> n"
proof -
  assume c: "0 < c"
  have "n + c - 1 < n + c" using c by simp
  also have "n + c \<le> n * c + c" using c by simp
  finally have "n + c - 1 < Suc n * c" by simp
  then have "(n + c - 1) div c < Suc n" by (rule less_mult_imp_div_less)
  then show ?thesis by (simp add: DivCeil_def)
qed

section \<open>The fan-out\<close>

text \<open>
  C1 (as the code has it). For every non-empty partition list \<open>ps\<close> and every
  \<open>K \<ge> 1\<close>, \<^verbatim>\<open>processPartitions\<close> cuts \<open>ps\<close> into consecutive, order-preserving
  slices of chunk size \<open>c = ceil(len / K)\<close> (the last one may be shorter). That makes
  \<open>ceil(len / c)\<close> slices, at most \<open>K\<close>, not \<open>ceil(len / K)\<close> of them. The slices get
  the batch ids 1, 2, ... in order (as 32-bit values; read as signed numbers they are
  \<open>i + 1\<close> as long as fewer than \<open>2^31\<close> batches exist), and exactly one child partition
  workflow is started per slice, in order, and nothing else is done.
\<close>

theorem processPartitions_chunks:
  assumes "ps \<noteq> []" and "1 \<le> K"
  shows "let c = DivCeil (length ps) K;
             r' = snd (processPartitions e r K ps);
             bs = startedBatches (drop (length (trace r)) (trace r'))
         in trace r' = trace r @ map (\<lambda>b. StartPartitionWorkflow (config r) b (runUUID r)) bs
          \<and> length bs = DivCeil (length ps) c
          \<and> length bs \<le> K
          \<and> concat (map Partitions bs) = ps
          \<and> (\<forall>i < length bs. Partitions (bs ! i) = take c (drop (i * c) ps)
                              \<and> BatchId (bs ! i) = of_nat (i + 1)
                              \<and> (min K (length ps) < 2 ^ 31 \<longrightarrow> sint (BatchId (bs ! i)) = int i + 1))"
proof -
  let ?c = "DivCeil (length ps) K"
  let ?bs = "toBatches (makeBatches 0 ?c ps [])"
  have K: "0 < K" and n: "0 < length ps" using assms by simp_all
  have c: "0 < ?c" using K n by (rule DivCeil_pos)
  have tr: "trace (snd (processPartitions e r K ps)) =
      trace r @ map (\<lambda>b. StartPartitionWorkflow (config r) b (runUUID r)) ?bs"
    using K n by (simp add: processPartitions_def Let_def)
  have sb: "startedBatches (drop (length (trace r)) (trace (snd (processPartitions e r K ps)))) = ?bs"
    by (simp add: tr)
  have len: "length ?bs = DivCeil (length ps) ?c"
    using c by (simp add: makeBatches_chunks)
  have le: "length ?bs \<le> K" unfolding len using K n by (rule DivCeil_le)
  have cc: "concat (map Partitions ?bs) = ps" using c by (simp add: concat_makeBatches)
  have lenn: "length ?bs \<le> length ps"
    unfolding len using c by (rule DivCeil_le_self)
  have nth: "\<forall>i < length ?bs. Partitions (?bs ! i) = take ?c (drop (i * ?c) ps)
                              \<and> BatchId (?bs ! i) = of_nat (i + 1)
                              \<and> (min K (length ps) < 2 ^ 31 \<longrightarrow> sint (BatchId (?bs ! i)) = int i + 1)"
  proof (intro allI impI conjI)
    fix i assume i: "i < length ?bs"
    then have i': "i < length (makeBatches 0 ?c ps [])" by simp
    show "Partitions (?bs ! i) = take ?c (drop (i * ?c) ps)"
      using i' c by (simp add: nth_toBatches makeBatches_chunks)
    show "BatchId (?bs ! i) = of_nat (i + 1)"
      using i' by (simp add: nth_toBatches)
    assume "min K (length ps) < 2 ^ 31"
    then have "i + 1 < 2 ^ 31" using i lenn le by linarith
    then have "sint (of_nat (i + 1) :: 32 word) = int (i + 1)" by (rule sint_word_of_nat32)
    then show "sint (BatchId (?bs ! i)) = int i + 1"
      using i' by (simp only: nth_toBatches QRepPartitionBatch.simps)
  qed
  show ?thesis
    unfolding Let_def sb using tr len le cc nth by blast
qed

text \<open>
  The theorem at two workers and five partitions: two children are started, and their
  batches together are the five partitions in order.
\<close>

theorem processPartitions_chunks_witness:
  "fivePartitions \<noteq> [] \<and> (1::nat) \<le> 2
   \<and> length (startedBatches (trace (snd (processPartitions (exampleEnv False fivePartitions)
        (initialRun (exampleEnv False fivePartitions) exampleConfig None) 2 fivePartitions)))) = 2
   \<and> concat (map Partitions (startedBatches (trace (snd (processPartitions
        (exampleEnv False fivePartitions)
        (initialRun (exampleEnv False fivePartitions) exampleConfig None) 2 fivePartitions)))))
       = fivePartitions"
  using processPartitions_chunks [of fivePartitions 2 "exampleEnv False fivePartitions"
      "initialRun (exampleEnv False fivePartitions) exampleConfig None"]
  by (simp add: Let_def fivePartitions_def initialRun_def DivCeil_def)

text \<open>
  C1 as stated fails: with two workers and the partitions \<open>p1, ..., p5\<close> the code starts
  two children, with the batches \<open>1: [p1, p2, p3]\<close> and \<open>2: [p4, p5]\<close>, and not the
  \<open>ceil(5 / 2) = 3\<close> children \<open>[p1, p2]\<close>, \<open>[p3, p4]\<close>, \<open>[p5]\<close> of the claim.
\<close>

theorem processPartitions_five_by_two:
  "startedBatches (trace (snd (processPartitions (exampleEnv False fivePartitions)
      (initialRun (exampleEnv False fivePartitions) exampleConfig None) 2 fivePartitions)))
   = [\<lparr>BatchId = 1, Partitions = map examplePartition [''p1'', ''p2'', ''p3'']\<rparr>,
      \<lparr>BatchId = 2, Partitions = map examplePartition [''p4'', ''p5'']\<rparr>]
   \<and> startedBatches (trace (snd (processPartitions (exampleEnv False fivePartitions)
      (initialRun (exampleEnv False fivePartitions) exampleConfig None) 2 fivePartitions)))
   \<noteq> [\<lparr>BatchId = 1, Partitions = map examplePartition [''p1'', ''p2'']\<rparr>,
      \<lparr>BatchId = 2, Partitions = map examplePartition [''p3'', ''p4'']\<rparr>,
      \<lparr>BatchId = 3, Partitions = map examplePartition [''p5'']\<rparr>]
   \<and> DivCeil (length fivePartitions) 2 = 3"
  by (simp add: processPartitions_def fivePartitions_def DivCeil_def makeBatches.simps slice_def
      toBatches_def initialRun_def)

section \<open>The steps of a cycle, one by one\<close>

text \<open>
  Each step that succeeds leaves the config, the state and the discovered partitions as
  they were, except for what is listed, and adds only events of its own kind to the trace.
\<close>

lemma startedBatches_append [simp]:
  "startedBatches (xs @ ys) = startedBatches xs @ startedBatches ys"
  by (induction xs rule: startedBatches.induct) simp_all

lemma setWorkflowQueries_None:
  assumes "setWorkflowQueries e r = (None, r')"
  shows "config r' = config r" and "state r' = state r" and "partitions r' = partitions r"
    and "startedBatches (trace r') = startedBatches (trace r)"
    and "filter isRenameTables (trace r') = filter isRenameTables (trace r)"
    and "filter isCreateTablesFromExisting (trace r') = filter isCreateTablesFromExisting (trace r)"
  using assms
  by (auto simp: setWorkflowQueries_def Let_def wrapError_def split: option.splits)

lemma pauseGate_None:
  assumes "pauseGate e r = (None, r')"
  shows "config r' = config r"
    and "state r' = (state r)\<lparr>CurrentFlowStatus := CurrentFlowStatus (state r')\<rparr>"
    and "partitions r' = partitions r"
    and "startedBatches (trace r') = startedBatches (trace r)"
    and "filter isRenameTables (trace r') = filter isRenameTables (trace r)"
    and "filter isCreateTablesFromExisting (trace r') = filter isCreateTablesFromExisting (trace r)"
  using assms
  by (auto simp: pauseGate_def Let_def updateStatus_def split: option.splits sum.splits if_splits)

lemma setupWatermarkTableOnDestination_None:
  assumes "setupWatermarkTableOnDestination e r = (None, r')"
  shows "config r' = config r" and "state r' = state r" and "partitions r' = partitions r"
    and "startedBatches (trace r') = startedBatches (trace r)"
    and "filter isRenameTables (trace r') = filter isRenameTables (trace r)"
    and "filter isCreateTablesFromExisting (trace r') = filter isCreateTablesFromExisting (trace r)"
  using assms
  by (auto simp: setupWatermarkTableOnDestination_def setupTableSchema_def executeActivity_def
      wrapError_def Let_def split: option.splits if_splits prod.splits)

lemma SetupMetadataTables_None:
  assumes "SetupMetadataTables e r = (None, r')"
  shows "config r' = config r" and "state r' = state r" and "partitions r' = partitions r"
    and "startedBatches (trace r') = startedBatches (trace r)"
    and "filter isRenameTables (trace r') = filter isRenameTables (trace r)"
    and "filter isCreateTablesFromExisting (trace r') = filter isCreateTablesFromExisting (trace r)"
  using assms
  by (auto simp: SetupMetadataTables_def executeActivity_def wrapError_def Let_def
      split: option.splits)

lemma handleTableCreationForResync_None:
  assumes "handleTableCreationForResync e r = (None, r')"
  shows "config r' = (config r)\<lparr>DestinationTableIdentifier :=
                   (if NeedsResync (state r) \<and> DstTableFullResync (config r)
                    then DestinationTableIdentifier (config r) @ ''_peerdb_resync''
                    else DestinationTableIdentifier (config r))\<rparr>"
    and "state r' = state r" and "partitions r' = partitions r"
    and "startedBatches (trace r') = startedBatches (trace r)"
    and "filter isRenameTables (trace r') = filter isRenameTables (trace r)"
    and "filter isCreateTablesFromExisting (trace r') =
           filter isCreateTablesFromExisting (trace r) @
           (if NeedsResync (state r) \<and> DstTableFullResync (config r)
            then [ExecuteActivity (CreateTablesFromExisting (FlowJobName (config r))
                    (DestinationName (config r))
                    [(DestinationTableIdentifier (config r) @ ''_peerdb_resync'',
                      DestinationTableIdentifier (config r))]) None]
            else [])"
  using assms
  by (auto simp: handleTableCreationForResync_def executeActivity_def Let_def
      split: option.splits if_splits prod.splits)

lemma selectCursor_None:
  assumes "selectCursor e r = (None, r')"
  shows "config r' = config r" and "state r' = state r" and "partitions r' = partitions r"
    and "trace r' = trace r"
    and "fullRefresh r' \<longleftrightarrow> (\<exists>wm. WriteMode (config r) = Some wm
            \<and> WriteType wm = QREP_WRITE_MODE_OVERWRITE
            \<and> getQRepOverwriteFullRefreshMode e (Env (config r)))"
    and "lastPartition r' = (if fullRefresh r' then Some InitialLastPartition
                             else LastPartition (state r))"
  using assms
  by (auto simp: selectCursor_def Let_def split: option.splits if_splits)

lemma waitForNewRows_Some:
  assumes "waitForNewRows e r lp = (Some res, r')"
  shows "config r' = config r" and "state r' = state r" and "partitions r' = partitions r"
    and "fullRefresh r' = fullRefresh r" and "lastPartition r' = lastPartition r"
    and "startedBatches (trace r') = startedBatches (trace r)"
    and "filter isRenameTables (trace r') = filter isRenameTables (trace r)"
    and "filter isCreateTablesFromExisting (trace r') = filter isCreateTablesFromExisting (trace r)"
  using assms
  by (auto simp: waitForNewRows_def Let_def split: option.splits if_splits prod.splits)

lemma prepareCycle_steps:
  assumes "prepareCycle e cfg st = (None, r)"
  obtains r1 r2 r3 r4 r5 r6 where
    "setWorkflowQueries e (initialRun e cfg st) = (None, r1)"
    "pauseGate e r1 = (None, r2)"
    "setupWatermarkTableOnDestination e
       (r2\<lparr>maxParallelWorkers := (if MaxParallelWorkers (config r2) > 0
                                     then unat (MaxParallelWorkers (config r2)) else 16)\<rparr>) = (None, r3)"
    "SetupMetadataTables e r3 = (None, r4)"
    "handleTableCreationForResync e r4 = (None, r5)"
    "selectCursor e r5 = (None, r6)"
    "r = r6 \<or> waitForNewRows e r6 (lastPartition r6) = (Some None, r)"
  using assms unfolding prepareCycle_def
  by (auto split: prod.splits option.splits if_splits)

lemma state_initialRun [simp]: "state (initialRun e cfg st) = startState st"
  by (simp add: initialRun_def)

lemma prepareCycle_None:
  assumes "prepareCycle e cfg st = (None, r)"
  shows "config r = cfg\<lparr>DestinationTableIdentifier :=
            (if NeedsResync (state (initialRun e cfg st)) \<and> DstTableFullResync cfg
             then DestinationTableIdentifier cfg @ ''_peerdb_resync''
             else DestinationTableIdentifier cfg)\<rparr>"
    and "state r = (state (initialRun e cfg st))\<lparr>CurrentFlowStatus := CurrentFlowStatus (state r)\<rparr>"
    and "partitions r = None"
    and "fullRefresh r \<longleftrightarrow> (\<exists>wm. WriteMode cfg = Some wm
            \<and> WriteType wm = QREP_WRITE_MODE_OVERWRITE
            \<and> getQRepOverwriteFullRefreshMode e (Env cfg))"
    and "lastPartition r = (if fullRefresh r then Some InitialLastPartition
                            else LastPartition (state (initialRun e cfg st)))"
    and "startedBatches (trace r) = []"
    and "filter isRenameTables (trace r) = []"
    and "filter isCreateTablesFromExisting (trace r) =
           (if NeedsResync (state (initialRun e cfg st)) \<and> DstTableFullResync cfg
            then [ExecuteActivity (CreateTablesFromExisting (FlowJobName cfg) (DestinationName cfg)
                    [(DestinationTableIdentifier cfg @ ''_peerdb_resync'',
                      DestinationTableIdentifier cfg)]) None]
            else [])"
proof -
  let ?r0 = "initialRun e cfg st"
  obtain r1 r2 r3 r4 r5 r6 where
    q: "setWorkflowQueries e ?r0 = (None, r1)" and
    p: "pauseGate e r1 = (None, r2)" and
    w: "setupWatermarkTableOnDestination e
       (r2\<lparr>maxParallelWorkers := (if MaxParallelWorkers (config r2) > 0
                                     then unat (MaxParallelWorkers (config r2)) else 16)\<rparr>) = (None, r3)" and
    m: "SetupMetadataTables e r3 = (None, r4)" and
    c: "handleTableCreationForResync e r4 = (None, r5)" and
    s: "selectCursor e r5 = (None, r6)" and
    wt: "r = r6 \<or> waitForNewRows e r6 (lastPartition r6) = (Some None, r)"
    using assms by (rule prepareCycle_steps)
  note Q = setWorkflowQueries_None[OF q] and P = pauseGate_None[OF p]
    and W = setupWatermarkTableOnDestination_None[OF w] and M = SetupMetadataTables_None[OF m]
    and C = handleTableCreationForResync_None[OF c] and S = selectCursor_None[OF s]
  have c0: "config ?r0 = cfg" and p0: "partitions ?r0 = None" and t0: "trace ?r0 = []"
    by (simp_all add: initialRun_def)
  have cfg4: "config r4 = cfg" using Q(1) P(1) W(1) M(1) c0 by simp
  have st4: "state r4 = (state ?r0)\<lparr>CurrentFlowStatus := CurrentFlowStatus (state r4)\<rparr>"
    using Q(2) P(2) W(2) M(2) by simp
  have nr4: "NeedsResync (state r4) = NeedsResync (state ?r0)"
    and lp4: "LastPartition (state r4) = LastPartition (state ?r0)"
    by (subst st4, simp)+
  have cfg6: "config r6 = cfg\<lparr>DestinationTableIdentifier :=
            (if NeedsResync (state ?r0) \<and> DstTableFullResync cfg
             then DestinationTableIdentifier cfg @ ''_peerdb_resync''
             else DestinationTableIdentifier cfg)\<rparr>"
    using C(1) S(1) cfg4 nr4 by simp
  have st6: "state r6 = (state ?r0)\<lparr>CurrentFlowStatus := CurrentFlowStatus (state r6)\<rparr>"
    using C(2) S(2) st4 by simp
  have pt6: "partitions r6 = None" using Q(3) P(3) W(3) M(3) C(3) S(3) p0 by simp
  have fr6: "fullRefresh r6 \<longleftrightarrow> (\<exists>wm. WriteMode cfg = Some wm
            \<and> WriteType wm = QREP_WRITE_MODE_OVERWRITE
            \<and> getQRepOverwriteFullRefreshMode e (Env cfg))"
    using S(5) C(1) cfg4 by simp
  have lp6: "lastPartition r6 = (if fullRefresh r6 then Some InitialLastPartition
                            else LastPartition (state ?r0))"
    using S(6) C(2) lp4 by simp
  have sb6: "startedBatches (trace r6) = []"
    using Q(4) P(4) W(4) M(4) C(4) S(4) t0 by simp
  have rn6: "filter isRenameTables (trace r6) = []"
    using Q(5) P(5) W(5) M(5) C(5) S(4) t0 by simp
  have cr6: "filter isCreateTablesFromExisting (trace r6) =
           (if NeedsResync (state ?r0) \<and> DstTableFullResync cfg
            then [ExecuteActivity (CreateTablesFromExisting (FlowJobName cfg) (DestinationName cfg)
                    [(DestinationTableIdentifier cfg @ ''_peerdb_resync'',
                      DestinationTableIdentifier cfg)]) None]
            else [])"
    using Q(6) P(6) W(6) M(6) C(6) S(4) t0 cfg4 nr4 by simp
  have
    "config r = config r6 \<and> state r = state r6 \<and> partitions r = partitions r6
     \<and> fullRefresh r = fullRefresh r6 \<and> lastPartition r = lastPartition r6
     \<and> startedBatches (trace r) = startedBatches (trace r6)
     \<and> filter isRenameTables (trace r) = filter isRenameTables (trace r6)
     \<and> filter isCreateTablesFromExisting (trace r) = filter isCreateTablesFromExisting (trace r6)"
  proof (rule disjE[OF wt])
    assume "r = r6"
    then show ?thesis by simp
  next
    assume a: "waitForNewRows e r6 (lastPartition r6) = (Some None, r)"
    show ?thesis using waitForNewRows_Some[OF a] by simp
  qed
  then show "config r = cfg\<lparr>DestinationTableIdentifier :=
            (if NeedsResync (state (initialRun e cfg st)) \<and> DstTableFullResync cfg
             then DestinationTableIdentifier cfg @ ''_peerdb_resync''
             else DestinationTableIdentifier cfg)\<rparr>"
    and "state r = (state (initialRun e cfg st))\<lparr>CurrentFlowStatus := CurrentFlowStatus (state r)\<rparr>"
    and "partitions r = None"
    and "fullRefresh r \<longleftrightarrow> (\<exists>wm. WriteMode cfg = Some wm
            \<and> WriteType wm = QREP_WRITE_MODE_OVERWRITE
            \<and> getQRepOverwriteFullRefreshMode e (Env cfg))"
    and "lastPartition r = (if fullRefresh r then Some InitialLastPartition
                            else LastPartition (state (initialRun e cfg st)))"
    and "startedBatches (trace r) = []"
    and "filter isRenameTables (trace r) = []"
    and "filter isCreateTablesFromExisting (trace r) =
           (if NeedsResync (state (initialRun e cfg st)) \<and> DstTableFullResync cfg
            then [ExecuteActivity (CreateTablesFromExisting (FlowJobName cfg) (DestinationName cfg)
                    [(DestinationTableIdentifier cfg @ ''_peerdb_resync'',
                      DestinationTableIdentifier cfg)]) None]
            else [])"
    using cfg6 st6 pt6 fr6 lp6 sb6 rn6 cr6 by simp_all
qed

lemma partitions_frames:
  "setWorkflowQueries e r = (x, r') \<Longrightarrow> partitions r' = partitions r"
  "pauseGate e r = (y, r') \<Longrightarrow> partitions r' = partitions r"
  "setupWatermarkTableOnDestination e r = (x, r') \<Longrightarrow> partitions r' = partitions r"
  "SetupMetadataTables e r = (x, r') \<Longrightarrow> partitions r' = partitions r"
  "handleTableCreationForResync e r = (x, r') \<Longrightarrow> partitions r' = partitions r"
  "selectCursor e r = (x, r') \<Longrightarrow> partitions r' = partitions r"
  "waitForNewRows e r lp = (z, r') \<Longrightarrow> partitions r' = partitions r"
  by (auto simp: setWorkflowQueries_def pauseGate_def setupWatermarkTableOnDestination_def
      SetupMetadataTables_def handleTableCreationForResync_def selectCursor_def waitForNewRows_def
      setupTableSchema_def executeActivity_def wrapError_def updateStatus_def Let_def
      split: option.splits sum.splits if_splits prod.splits)

lemma pauseGate_outcome: "pauseGate e r = (Some out, r') \<Longrightarrow> out \<noteq> ContinueAsNew"
  by (auto simp: pauseGate_def Let_def split: option.splits sum.splits if_splits)

lemma prepareCycle_Some:
  assumes "prepareCycle e cfg st = (Some out, r)"
  shows "out \<noteq> ContinueAsNew" and "partitions r = None"
proof -
  show "out \<noteq> ContinueAsNew"
    using assms unfolding prepareCycle_def
    by (auto split: prod.splits option.splits if_splits dest: pauseGate_outcome)
  have p0: "partitions (initialRun e cfg st) = None" by (simp add: initialRun_def)
  show "partitions r = None"
    using assms p0 unfolding prepareCycle_def
    by (auto split: prod.splits option.splits if_splits dest!: partitions_frames)
qed

lemma filter_started [simp]:
  "filter isRenameTables (map (\<lambda>b. StartPartitionWorkflow c b u) bs) = []"
  "filter isCreateTablesFromExisting (map (\<lambda>b. StartPartitionWorkflow c b u) bs) = []"
  by (induction bs) simp_all

lemma getPartitions_Inr:
  assumes "getPartitions e r lp = (Inr ps, r')"
  shows "r' = r\<lparr>trace := trace r @ [ExecuteGetQRepPartitions (config r) lp (runUUID r) (Inr ps)]\<rparr>"
    and "getQRepPartitionsResult e (trace r) (config r) lp (runUUID r) = Inr ps"
  using assms by (auto simp: getPartitions_def Let_def split: sum.splits)

lemma getPartitions_Inl:
  assumes "getPartitions e r lp = (Inl err, r')"
  shows "partitions r' = partitions r"
  using assms by (auto simp: getPartitions_def Let_def split: sum.splits)

lemma processPartitions_frame:
  assumes "processPartitions e r K ps = (x, r')"
  shows "config r' = config r" and "state r' = state r" and "partitions r' = partitions r"
    and "fullRefresh r' = fullRefresh r" and "runUUID r' = runUUID r"
    and "filter isRenameTables (trace r') = filter isRenameTables (trace r)"
    and "filter isCreateTablesFromExisting (trace r') = filter isCreateTablesFromExisting (trace r)"
    and "ps = [] \<Longrightarrow> trace r' = trace r"
  using assms
  by (auto simp: processPartitions_def Let_def wrapError_def split: if_splits option.splits)

lemma consolidatePartitions_frame:
  assumes "consolidatePartitions e r = (x, r')"
  shows "config r' = config r" and "state r' = state r" and "partitions r' = partitions r"
    and "fullRefresh r' = fullRefresh r"
    and "startedBatches (trace r') = startedBatches (trace r)"
    and "filter isRenameTables (trace r') = filter isRenameTables (trace r)"
    and "filter isCreateTablesFromExisting (trace r') = filter isCreateTablesFromExisting (trace r)"
    and "\<exists>res post. trace r' =
            trace r @ ExecuteActivity (ConsolidateQRepPartitions (config r) (runUUID r)) res # post
          \<and> (res = None \<longrightarrow> (\<exists>res'. post = [ExecuteActivity (CleanupQRepFlow (config r)) res']))"
  using assms
  by (auto simp: consolidatePartitions_def executeActivity_def Let_def wrapError_def
      split: if_splits option.splits prod.splits)

lemma handleTableRenameForResync_None:
  assumes "handleTableRenameForResync e r = (None, r')"
  shows "config r' = (config r)\<lparr>DestinationTableIdentifier :=
                   (if NeedsResync (state r) \<and> DstTableFullResync (config r)
                    then TrimSuffix (DestinationTableIdentifier (config r)) ''_peerdb_resync''
                    else DestinationTableIdentifier (config r))\<rparr>"
    and "state r' = (state r)\<lparr>NeedsResync := False\<rparr>"
    and "partitions r' = partitions r" and "fullRefresh r' = fullRefresh r"
    and "startedBatches (trace r') = startedBatches (trace r)"
    and "filter isCreateTablesFromExisting (trace r') = filter isCreateTablesFromExisting (trace r)"
    and "filter isRenameTables (trace r') =
           filter isRenameTables (trace r) @
           (if NeedsResync (state r) \<and> DstTableFullResync (config r)
            then [ExecuteActivity (RenameTables (FlowJobName (config r)) (DestinationName (config r))
                    [(DestinationTableIdentifier (config r),
                      TrimSuffix (DestinationTableIdentifier (config r)) ''_peerdb_resync'')]) None]
            else [])"
    and "\<exists>evs. trace r' = trace r @ evs"
  using assms
  by (auto simp: handleTableRenameForResync_def setupTableSchema_def executeActivity_def Let_def
      split: if_splits option.splits prod.splits)

lemma handleTableRenameForResync_frame:
  assumes "handleTableRenameForResync e r = (x, r')"
  shows "partitions r' = partitions r"
    and "startedBatches (trace r') = startedBatches (trace r)"
    and "\<exists>evs. trace r' = trace r @ evs"
  using assms
  by (auto simp: handleTableRenameForResync_def setupTableSchema_def executeActivity_def Let_def
      split: if_splits option.splits prod.splits)

lemma finishCycle_frame:
  assumes "finishCycle e r = (out, r')"
  shows "out = ContinueAsNew" and "config r' = config r"
    and "state r' = (state r)\<lparr>CurrentFlowStatus := CurrentFlowStatus (state r')\<rparr>"
    and "partitions r' = partitions r" and "fullRefresh r' = fullRefresh r"
    and "startedBatches (trace r') = startedBatches (trace r)"
    and "filter isRenameTables (trace r') = filter isRenameTables (trace r)"
    and "filter isCreateTablesFromExisting (trace r') = filter isCreateTablesFromExisting (trace r)"
    and "\<exists>evs. trace r' = trace r @ evs"
  using assms
  by (auto simp: finishCycle_def Let_def updateStatus_def split: if_splits)

lemma replicateCycle_steps:
  assumes "replicateCycle e r = (x, r')"
  obtains (discovery) err where "getPartitions e r (LastPartition (state r)) = (Inl err, r')"
      "x = Some (Returned (Some (Wrap ''failed to get partitions'' err)))"
  | (fanout) ps r1 err where
      "getPartitions e r (LastPartition (state r)) = (Inr ps, r1)"
      "processPartitions e (r1\<lparr>partitions := Some ps\<rparr>) (maxParallelWorkers r1) ps = (Some err, r')"
      "x = Some (Returned (Some err))"
  | (consolidate) ps r1 r2 err where
      "getPartitions e r (LastPartition (state r)) = (Inr ps, r1)"
      "processPartitions e (r1\<lparr>partitions := Some ps\<rparr>) (maxParallelWorkers r1) ps = (None, r2)"
      "consolidatePartitions e r2 = (Some err, r')"
      "x = Some (Returned (Some err))"
  | (initialCopy) ps r1 r2 r3 where
      "getPartitions e r (LastPartition (state r)) = (Inr ps, r1)"
      "processPartitions e (r1\<lparr>partitions := Some ps\<rparr>) (maxParallelWorkers r1) ps = (None, r2)"
      "consolidatePartitions e r2 = (None, r3)"
      "InitialCopyOnly (config r3)" "x = Some ContinueAsNew"
      "r' = updateStatus e r3 STATUS_COMPLETED"
  | (rename) ps r1 r2 r3 err where
      "getPartitions e r (LastPartition (state r)) = (Inr ps, r1)"
      "processPartitions e (r1\<lparr>partitions := Some ps\<rparr>) (maxParallelWorkers r1) ps = (None, r2)"
      "consolidatePartitions e r2 = (None, r3)"
      "\<not> InitialCopyOnly (config r3)"
      "handleTableRenameForResync e r3 = (Some err, r')"
      "x = Some (Returned (Some err))"
  | (advance) ps r1 r2 r3 r4 where
      "getPartitions e r (LastPartition (state r)) = (Inr ps, r1)"
      "processPartitions e (r1\<lparr>partitions := Some ps\<rparr>) (maxParallelWorkers r1) ps = (None, r2)"
      "consolidatePartitions e r2 = (None, r3)"
      "\<not> InitialCopyOnly (config r3)"
      "handleTableRenameForResync e r3 = (None, r4)"
      "x = None"
      "r' = r4\<lparr>state := (state r4)\<lparr>
               NumPartitionsProcessed := NumPartitionsProcessed (state r4) + of_nat (length ps),
               LastPartition := (if ps \<noteq> [] \<and> \<not> fullRefresh r4 then Some (last ps)
                                 else LastPartition (state r4))\<rparr>\<rparr>"
  using assms unfolding replicateCycle_def
  by (auto simp: Let_def split: prod.splits sum.splits option.splits if_splits)

lemma processPartitions_trace:
  assumes "processPartitions e r K ps = (x, r')"
  shows "\<exists>bs. trace r' = trace r @ map (\<lambda>b. StartPartitionWorkflow (config r) b (runUUID r)) bs"
  using assms
  by (auto simp: processPartitions_def Let_def wrapError_def split: if_splits option.splits)

lemma consolidatePartitions_None:
  assumes "consolidatePartitions e r = (None, r')"
  shows "trace r' = trace r @ [ExecuteActivity (ConsolidateQRepPartitions (config r) (runUUID r)) None,
                               ExecuteActivity (CleanupQRepFlow (config r)) None]"
  using assms
  by (auto simp: consolidatePartitions_def executeActivity_def Let_def wrapError_def
      split: if_splits option.splits prod.splits)

lemma handleTableRenameForResync_trace:
  assumes "handleTableRenameForResync e r = (None, r')"
  shows "trace r' = trace r @
           (if NeedsResync (state r) \<and> DstTableFullResync (config r)
            then [ExecuteActivity (SetupTableSchema (SourceName (config r))
                    [(DestinationTableIdentifier (config r), DestinationTableIdentifier (config r))]
                    (FlowJobName (config r)) (System (config r)) (Env (config r))
                    (Version (config r))) None,
                  ExecuteActivity (RenameTables (FlowJobName (config r)) (DestinationName (config r))
                    [(DestinationTableIdentifier (config r),
                      TrimSuffix (DestinationTableIdentifier (config r)) ''_peerdb_resync'')]) None]
            else [])"
  using assms
  by (auto simp: handleTableRenameForResync_def setupTableSchema_def executeActivity_def Let_def
      split: if_splits option.splits prod.splits)

text \<open>The successful path through the block.\<close>

lemma replicateCycle_None:
  assumes "replicateCycle e r = (None, r')"
  shows "\<not> InitialCopyOnly (config r)"
    and "\<exists>ps bs. partitions r' = Some ps
           \<and> state r' = (state r)\<lparr>
                 LastPartition := (if ps \<noteq> [] \<and> \<not> fullRefresh r then Some (last ps)
                                   else LastPartition (state r)),
                 NumPartitionsProcessed := NumPartitionsProcessed (state r) + of_nat (length ps),
                 NeedsResync := False\<rparr>
           \<and> trace r' = trace r
               @ [ExecuteGetQRepPartitions (config r) (LastPartition (state r)) (runUUID r) (Inr ps)]
               @ map (\<lambda>b. StartPartitionWorkflow (config r) b (runUUID r)) bs
               @ [ExecuteActivity (ConsolidateQRepPartitions (config r) (runUUID r)) None,
                  ExecuteActivity (CleanupQRepFlow (config r)) None]
               @ (if NeedsResync (state r) \<and> DstTableFullResync (config r)
                  then [ExecuteActivity (SetupTableSchema (SourceName (config r))
                          [(DestinationTableIdentifier (config r), DestinationTableIdentifier (config r))]
                          (FlowJobName (config r)) (System (config r)) (Env (config r))
                          (Version (config r))) None,
                        ExecuteActivity (RenameTables (FlowJobName (config r)) (DestinationName (config r))
                          [(DestinationTableIdentifier (config r),
                            TrimSuffix (DestinationTableIdentifier (config r)) ''_peerdb_resync'')]) None]
                  else [])"
    and "config r' = (config r)\<lparr>DestinationTableIdentifier :=
                   (if NeedsResync (state r) \<and> DstTableFullResync (config r)
                    then TrimSuffix (DestinationTableIdentifier (config r)) ''_peerdb_resync''
                    else DestinationTableIdentifier (config r))\<rparr>"
    and "fullRefresh r' = fullRefresh r"
proof -
  from assms obtain ps r1 r2 r3 r4 where
    g: "getPartitions e r (LastPartition (state r)) = (Inr ps, r1)" and
    p: "processPartitions e (r1\<lparr>partitions := Some ps\<rparr>) (maxParallelWorkers r1) ps = (None, r2)" and
    c: "consolidatePartitions e r2 = (None, r3)" and
    i: "\<not> InitialCopyOnly (config r3)" and
    h: "handleTableRenameForResync e r3 = (None, r4)" and
    r': "r' = r4\<lparr>state := (state r4)\<lparr>
               NumPartitionsProcessed := NumPartitionsProcessed (state r4) + of_nat (length ps),
               LastPartition := (if ps \<noteq> [] \<and> \<not> fullRefresh r4 then Some (last ps)
                                 else LastPartition (state r4))\<rparr>\<rparr>"
    by (elim replicateCycle_steps) auto
  note G = getPartitions_Inr[OF g] and P = processPartitions_frame[OF p]
    and C = consolidatePartitions_frame[OF c] and H = handleTableRenameForResync_None[OF h]
  have r1: "config r1 = config r" "state r1 = state r" "fullRefresh r1 = fullRefresh r"
    "runUUID r1 = runUUID r"
    by (subst G(1), simp)+
  have t1: "trace r1 = trace r @ [ExecuteGetQRepPartitions (config r) (LastPartition (state r)) (runUUID r) (Inr ps)]"
    by (subst G(1), simp)
  have cfg3: "config r3 = config r" using C(1) P(1) r1 by simp
  have st3: "state r3 = state r" using C(2) P(2) r1 by simp
  have fr4: "fullRefresh r4 = fullRefresh r" using H(4) C(4) P(4) r1 by simp
  have uu2: "runUUID r2 = runUUID r" using P(5) r1 by simp
  show "\<not> InitialCopyOnly (config r)" using i cfg3 by simp
  show "config r' = (config r)\<lparr>DestinationTableIdentifier :=
                   (if NeedsResync (state r) \<and> DstTableFullResync (config r)
                    then TrimSuffix (DestinationTableIdentifier (config r)) ''_peerdb_resync''
                    else DestinationTableIdentifier (config r))\<rparr>"
    using H(1) cfg3 st3 by (simp add: r')
  show "fullRefresh r' = fullRefresh r" using fr4 by (simp add: r')
  obtain bs where t2: "trace r2 = trace r1 @ map (\<lambda>b. StartPartitionWorkflow (config r) b (runUUID r)) bs"
    using processPartitions_trace[OF p] r1 by auto
  have t3: "trace r3 = trace r2 @ [ExecuteActivity (ConsolidateQRepPartitions (config r) (runUUID r)) None,
                               ExecuteActivity (CleanupQRepFlow (config r)) None]"
    using consolidatePartitions_None[OF c] P(1) r1 uu2 by simp
  have t4: "trace r' = trace r3 @
           (if NeedsResync (state r) \<and> DstTableFullResync (config r)
            then [ExecuteActivity (SetupTableSchema (SourceName (config r))
                    [(DestinationTableIdentifier (config r), DestinationTableIdentifier (config r))]
                    (FlowJobName (config r)) (System (config r)) (Env (config r))
                    (Version (config r))) None,
                  ExecuteActivity (RenameTables (FlowJobName (config r)) (DestinationName (config r))
                    [(DestinationTableIdentifier (config r),
                      TrimSuffix (DestinationTableIdentifier (config r)) ''_peerdb_resync'')]) None]
            else [])"
    using handleTableRenameForResync_trace[OF h] cfg3 st3 by (simp add: r')
  have pt: "partitions r' = Some ps" using H(3) C(3) P(3) by (simp add: r')
  have st: "state r' = (state r)\<lparr>
                 LastPartition := (if ps \<noteq> [] \<and> \<not> fullRefresh r then Some (last ps)
                                   else LastPartition (state r)),
                 NumPartitionsProcessed := NumPartitionsProcessed (state r) + of_nat (length ps),
                 NeedsResync := False\<rparr>"
    using H(2) st3 fr4 by (simp add: r')
  show "\<exists>ps bs. partitions r' = Some ps
           \<and> state r' = (state r)\<lparr>
                 LastPartition := (if ps \<noteq> [] \<and> \<not> fullRefresh r then Some (last ps)
                                   else LastPartition (state r)),
                 NumPartitionsProcessed := NumPartitionsProcessed (state r) + of_nat (length ps),
                 NeedsResync := False\<rparr>
           \<and> trace r' = trace r
               @ [ExecuteGetQRepPartitions (config r) (LastPartition (state r)) (runUUID r) (Inr ps)]
               @ map (\<lambda>b. StartPartitionWorkflow (config r) b (runUUID r)) bs
               @ [ExecuteActivity (ConsolidateQRepPartitions (config r) (runUUID r)) None,
                  ExecuteActivity (CleanupQRepFlow (config r)) None]
               @ (if NeedsResync (state r) \<and> DstTableFullResync (config r)
                  then [ExecuteActivity (SetupTableSchema (SourceName (config r))
                          [(DestinationTableIdentifier (config r), DestinationTableIdentifier (config r))]
                          (FlowJobName (config r)) (System (config r)) (Env (config r))
                          (Version (config r))) None,
                        ExecuteActivity (RenameTables (FlowJobName (config r)) (DestinationName (config r))
                          [(DestinationTableIdentifier (config r),
                            TrimSuffix (DestinationTableIdentifier (config r)) ''_peerdb_resync'')]) None]
                  else [])"
    apply (rule exI[of _ ps], rule exI[of _ bs])
    using pt st t1 t2 t3 t4 by simp
qed

lemma replicateCycle_ContinueAsNew:
  assumes "replicateCycle e r = (Some ContinueAsNew, r')"
  shows "InitialCopyOnly (config r)" and "\<exists>ps. partitions r' = Some ps"
    and "state r' = (state r)\<lparr>CurrentFlowStatus := STATUS_COMPLETED\<rparr>"
    and "config r' = config r" and "fullRefresh r' = fullRefresh r"
proof -
  from assms obtain ps r1 r2 r3 where
    g: "getPartitions e r (LastPartition (state r)) = (Inr ps, r1)" and
    p: "processPartitions e (r1\<lparr>partitions := Some ps\<rparr>) (maxParallelWorkers r1) ps = (None, r2)" and
    c: "consolidatePartitions e r2 = (None, r3)" and
    i: "InitialCopyOnly (config r3)" and
    r': "r' = updateStatus e r3 STATUS_COMPLETED"
    by (elim replicateCycle_steps) auto
  note G = getPartitions_Inr[OF g] and P = processPartitions_frame[OF p]
    and C = consolidatePartitions_frame[OF c]
  have r1: "config r1 = config r" "state r1 = state r" "fullRefresh r1 = fullRefresh r"
    by (subst G(1), simp)+
  show "InitialCopyOnly (config r)" using i C(1) P(1) r1 by simp
  show "\<exists>ps. partitions r' = Some ps" using C(3) P(3) by (simp add: r' updateStatus_def)
  show "state r' = (state r)\<lparr>CurrentFlowStatus := STATUS_COMPLETED\<rparr>"
    using C(2) P(2) r1 by (simp add: r' updateStatus_def)
  show "config r' = config r" using C(1) P(1) r1 by (simp add: r' updateStatus_def)
  show "fullRefresh r' = fullRefresh r" using C(4) P(4) r1 by (simp add: r' updateStatus_def)
qed

lemma processPartitions_Nil [simp]: "processPartitions e r K [] = (None, r)"
  by (simp add: processPartitions_def)

lemma after_consolidate:
  assumes "consolidatePartitions e r2 = (y, r3)" and "trace r' = trace r3 @ evs"
  shows "\<exists>res post. trace r' =
            trace r2 @ ExecuteActivity (ConsolidateQRepPartitions (config r2) (runUUID r2)) res # post
          \<and> (res = None \<longrightarrow> (\<exists>res' post'. post = ExecuteActivity (CleanupQRepFlow (config r2)) res' # post'))"
proof -
  from consolidatePartitions_frame(8)[OF assms(1)] obtain res post where
    t: "trace r3 = trace r2 @ ExecuteActivity (ConsolidateQRepPartitions (config r2) (runUUID r2)) res # post"
    and c: "res = None \<longrightarrow> (\<exists>res'. post = [ExecuteActivity (CleanupQRepFlow (config r2)) res'])"
    by blast
  have "trace r' = trace r2 @ ExecuteActivity (ConsolidateQRepPartitions (config r2) (runUUID r2)) res # (post @ evs)"
    using t assms(2) by simp
  moreover have "res = None \<longrightarrow> (\<exists>res' post'. post @ evs = ExecuteActivity (CleanupQRepFlow (config r2)) res' # post')"
    using c by auto
  ultimately show ?thesis by blast
qed

text \<open>What the block does when discovery returns no partition.\<close>

lemma replicateCycle_empty:
  assumes "replicateCycle e r = (x, r')" and "partitions r = None" and "partitions r' = Some []"
  shows "startedBatches (trace r') = startedBatches (trace r)"
    and "\<exists>res post. trace r' = trace r
           @ ExecuteGetQRepPartitions (config r) (LastPartition (state r)) (runUUID r) (Inr [])
           # ExecuteActivity (ConsolidateQRepPartitions (config r) (runUUID r)) res # post
         \<and> (res = None \<longrightarrow> (\<exists>res' post'. post = ExecuteActivity (CleanupQRepFlow (config r)) res' # post'))"
proof -
  let ?r2 = "r\<lparr>trace := trace r @ [ExecuteGetQRepPartitions (config r) (LastPartition (state r))
                   (runUUID r) (Inr [])], partitions := Some []\<rparr>"
  have "\<exists>y r3 evs. consolidatePartitions e ?r2 = (y, r3) \<and> trace r' = trace r3 @ evs
          \<and> startedBatches evs = []"
    using assms(1)
  proof (cases rule: replicateCycle_steps)
    case (discovery err)
    then show ?thesis using getPartitions_Inl assms(2,3) by fastforce
  next
    case (fanout ps r1 err)
    note P = processPartitions_frame[OF fanout(2)]
    have "ps = []" using P(3) assms(3) by simp
    then show ?thesis using fanout(2) by simp
  next
    case (consolidate ps r1 r2 err)
    note P = processPartitions_frame[OF consolidate(2)] and C = consolidatePartitions_frame[OF consolidate(3)]
    have ps: "ps = []" using P(3) C(3) assms(3) by simp
    have "r2 = ?r2" using consolidate(2) getPartitions_Inr(1)[OF consolidate(1)] ps by simp
    then show ?thesis using consolidate(3) by (intro exI[of _ "Some err"] exI[of _ r'] exI[of _ "[]"]) simp
  next
    case (initialCopy ps r1 r2 r3)
    note P = processPartitions_frame[OF initialCopy(2)] and C = consolidatePartitions_frame[OF initialCopy(3)]
    have ps: "ps = []" using P(3) C(3) assms(3) initialCopy(6) by (simp add: updateStatus_def)
    have "r2 = ?r2" using initialCopy(2) getPartitions_Inr(1)[OF initialCopy(1)] ps by simp
    then show ?thesis using initialCopy(3,6)
      by (intro exI[of _ None] exI[of _ r3]
          exI[of _ "if isRootWorkflow e then [SyncStatusToCatalog STATUS_COMPLETED] else []"])
        (simp add: updateStatus_def)
  next
    case (rename ps r1 r2 r3 err)
    note P = processPartitions_frame[OF rename(2)] and C = consolidatePartitions_frame[OF rename(3)]
      and H = handleTableRenameForResync_frame[OF rename(5)]
    have ps: "ps = []" using P(3) C(3) H(1) assms(3) by simp
    have r2: "r2 = ?r2" using rename(2) getPartitions_Inr(1)[OF rename(1)] ps by simp
    from H(3) obtain evs where evs: "trace r' = trace r3 @ evs" by blast
    have "startedBatches evs = []" using H(2) evs by simp
    then show ?thesis using rename(3) r2 evs by blast
  next
    case (advance ps r1 r2 r3 r4)
    note P = processPartitions_frame[OF advance(2)] and C = consolidatePartitions_frame[OF advance(3)]
      and H = handleTableRenameForResync_frame[OF advance(5)]
    have ps: "ps = []" using P(3) C(3) H(1) assms(3) advance(7) by simp
    have r2: "r2 = ?r2" using advance(2) getPartitions_Inr(1)[OF advance(1)] ps by simp
    from H(3) obtain evs where evs: "trace r4 = trace r3 @ evs" by blast
    have "startedBatches evs = []" using H(2) evs by simp
    moreover have "trace r' = trace r4" by (simp add: advance(7))
    ultimately show ?thesis using advance(3) r2 evs by auto
  qed
  then obtain y r3 evs where c: "consolidatePartitions e ?r2 = (y, r3)"
    and t: "trace r' = trace r3 @ evs" and s: "startedBatches evs = []"
    by blast
  show "startedBatches (trace r') = startedBatches (trace r)"
    using consolidatePartitions_frame(5)[OF c] t s by simp
  show "\<exists>res post. trace r' = trace r
           @ ExecuteGetQRepPartitions (config r) (LastPartition (state r)) (runUUID r) (Inr [])
           # ExecuteActivity (ConsolidateQRepPartitions (config r) (runUUID r)) res # post
         \<and> (res = None \<longrightarrow> (\<exists>res' post'. post = ExecuteActivity (CleanupQRepFlow (config r)) res' # post'))"
    using after_consolidate[OF c t] by simp
qed

lemma QRepFlowWorkflow_cases:
  assumes "QRepFlowWorkflow e cfg st = (out, r')"
  obtains (early) "prepareCycle e cfg st = (Some out, r')"
  | (paused) r where "prepareCycle e cfg st = (None, r)" "activeSignal r = PauseSignal"
      "finishCycle e r = (out, r')"
  | (inside) r where "prepareCycle e cfg st = (None, r)" "activeSignal r \<noteq> PauseSignal"
      "replicateCycle e r = (Some out, r')"
  | (full) r r1 where "prepareCycle e cfg st = (None, r)" "activeSignal r \<noteq> PauseSignal"
      "replicateCycle e r = (None, r1)" "finishCycle e r1 = (out, r')"
  using assms unfolding QRepFlowWorkflow_def
  by (auto split: prod.splits option.splits if_splits)

lemma TrimSuffix_append [simp]: "TrimSuffix (t @ suf) suf = t"
  by (simp add: TrimSuffix_def)


section \<open>Example runs\<close>

lemmas workflow_defs =
  QRepFlowWorkflow_def prepareCycle_def replicateCycle_def finishCycle_def initialRun_def
  startState_def newQRepFlowState_def setWorkflowQueries_def pauseGate_def
  setupWatermarkTableOnDestination_def SetupMetadataTables_def handleTableCreationForResync_def
  handleTableRenameForResync_def selectCursor_def waitForNewRows_def getPartitions_def
  processPartitions_def consolidatePartitions_def setupTableSchema_def executeActivity_def
  wrapError_def updateStatus_def Let_def DivCeil_def makeBatches.simps slice_def toBatches_def
  TrimSuffix_def exampleHandler_def

lemma exampleConfig_simps [simp]:
  "InitialCopyOnly exampleConfig = False" "DstTableFullResync exampleConfig = False"
  "SetupWatermarkTableOnDestination exampleConfig = False"
  "WriteMode exampleConfig = Some \<lparr>WriteType = QREP_WRITE_MODE_APPEND, UpsertKeyColumns = []\<rparr>"
  "MaxParallelWorkers exampleConfig = 2" "DestinationTableIdentifier exampleConfig = ''t''"
  "FlowJobName exampleConfig = ''flow''" "DestinationName exampleConfig = ''dst''"
  "Env exampleConfig = []"
  by (simp_all add: exampleConfig_def)

lemma overwriteConfig_simps [simp]:
  "InitialCopyOnly overwriteConfig = False" "DstTableFullResync overwriteConfig = False"
  "SetupWatermarkTableOnDestination overwriteConfig = False"
  "WriteMode overwriteConfig = Some \<lparr>WriteType = QREP_WRITE_MODE_OVERWRITE, UpsertKeyColumns = []\<rparr>"
  "MaxParallelWorkers overwriteConfig = 2" "Env overwriteConfig = []"
  by (simp_all add: overwriteConfig_def)

lemma initialCopyConfig_simps [simp]:
  "InitialCopyOnly initialCopyConfig = True" "DstTableFullResync initialCopyConfig = False"
  "SetupWatermarkTableOnDestination initialCopyConfig = False"
  "WriteMode initialCopyConfig = Some \<lparr>WriteType = QREP_WRITE_MODE_APPEND, UpsertKeyColumns = []\<rparr>"
  "MaxParallelWorkers initialCopyConfig = 2" "Env initialCopyConfig = []"
  by (simp_all add: initialCopyConfig_def)

lemma resyncConfig_simps [simp]:
  "InitialCopyOnly resyncConfig = False" "DstTableFullResync resyncConfig = True"
  "SetupWatermarkTableOnDestination resyncConfig = False"
  "WriteMode resyncConfig = Some \<lparr>WriteType = QREP_WRITE_MODE_APPEND, UpsertKeyColumns = []\<rparr>"
  "MaxParallelWorkers resyncConfig = 2" "DestinationTableIdentifier resyncConfig = ''t''"
  "FlowJobName resyncConfig = ''flow''" "DestinationName resyncConfig = ''dst''"
  "Env resyncConfig = []" "SourceName resyncConfig = ''src''" "System resyncConfig = 0"
  "Version resyncConfig = 0"
  by (simp_all add: resyncConfig_def exampleConfig_def)

text \<open>The append-mode example with five partitions: the cycle runs to its end.\<close>

lemma append_run:
  "QRepFlowWorkflow (exampleEnv False fivePartitions) exampleConfig None =
     (ContinueAsNew, snd (QRepFlowWorkflow (exampleEnv False fivePartitions) exampleConfig None))"
  "partitions (snd (QRepFlowWorkflow (exampleEnv False fivePartitions) exampleConfig None)) =
     Some fivePartitions"
  "\<not> fullRefresh (snd (QRepFlowWorkflow (exampleEnv False fivePartitions) exampleConfig None))"
  by (simp_all add: prod_eq_iff workflow_defs exampleEnv_def fivePartitions_def)

text \<open>Overwrite mode with full refresh, entered with the cursor at \<open>p0\<close>.\<close>

lemma refresh_run:
  "fst (QRepFlowWorkflow (exampleEnv True fivePartitions) overwriteConfig (Some advancedState)) =
     ContinueAsNew"
  "partitions (snd (QRepFlowWorkflow (exampleEnv True fivePartitions) overwriteConfig
     (Some advancedState))) = Some fivePartitions"
  "fullRefresh (snd (QRepFlowWorkflow (exampleEnv True fivePartitions) overwriteConfig
     (Some advancedState)))"
  "lastPartition (snd (QRepFlowWorkflow (exampleEnv True fivePartitions) overwriteConfig
     (Some advancedState))) = Some InitialLastPartition"
  "state (snd (QRepFlowWorkflow (exampleEnv True fivePartitions) overwriteConfig
     (Some advancedState))) =
     \<lparr>LastPartition = Some (examplePartition ''p0''), NumPartitionsProcessed = 6,
      NeedsResync = False, CurrentFlowStatus = STATUS_RUNNING\<rparr>"
  by (simp_all add: workflow_defs exampleEnv_def fivePartitions_def advancedState_def)

text \<open>Initial copy only, from a new state.\<close>

lemma initialCopy_run:
  "fst (QRepFlowWorkflow (exampleEnv False fivePartitions) initialCopyConfig None) = ContinueAsNew"
  "partitions (snd (QRepFlowWorkflow (exampleEnv False fivePartitions) initialCopyConfig None)) =
     Some fivePartitions"
  "\<not> fullRefresh (snd (QRepFlowWorkflow (exampleEnv False fivePartitions) initialCopyConfig None))"
  "state (snd (QRepFlowWorkflow (exampleEnv False fivePartitions) initialCopyConfig None)) =
     \<lparr>LastPartition = Some InitialLastPartition, NumPartitionsProcessed = 0,
      NeedsResync = True, CurrentFlowStatus = STATUS_COMPLETED\<rparr>"
  by (simp_all add: workflow_defs exampleEnv_def fivePartitions_def)

lemma examplePartition_inject [simp]: "examplePartition a = examplePartition b \<longleftrightarrow> a = b"
  by (simp add: examplePartition_def)

lemma examplePartition_not_initial [simp]:
  "examplePartition ''p0'' \<noteq> InitialLastPartition"
  "InitialLastPartition \<noteq> examplePartition ''p5''"
  by (simp_all add: examplePartition_def InitialLastPartition_def)

section \<open>The cursor\<close>

text \<open>
  C2 (as the code has it). For every cycle of \<^verbatim>\<open>QRepFlowWorkflow\<close> that ends without an
  error, that is by continuing as new: when the cycle reached partition discovery, does not
  have \<^verbatim>\<open>InitialCopyOnly\<close> set, discovered a non-empty list and is not in full-refresh
  mode, \<^verbatim>\<open>state.LastPartition\<close> is the last element of the discovered list afterwards.
  In every other case it is unchanged: when a pause skipped discovery, when the list is
  empty, when \<^verbatim>\<open>InitialCopyOnly\<close> is set, and when full refresh is set (it is then not
  set to the sentinel, it keeps the value it had). Full refresh is set exactly in overwrite
  mode with the setting enabled.
\<close>

theorem QRepFlowWorkflow_LastPartition:
  assumes "QRepFlowWorkflow e cfg st = (ContinueAsNew, r')"
  shows "LastPartition (state r') =
           (case partitions r' of
              None \<Rightarrow> LastPartition (startState st)
            | Some ps \<Rightarrow>
                if \<not> InitialCopyOnly cfg \<and> ps \<noteq> [] \<and> \<not> fullRefresh r'
                then Some (last ps) else LastPartition (startState st))
         \<and> (fullRefresh r' \<longleftrightarrow>
              (\<exists>wm. WriteMode cfg = Some wm \<and> WriteType wm = QREP_WRITE_MODE_OVERWRITE
                 \<and> getQRepOverwriteFullRefreshMode e (Env cfg)))"
  using assms
proof (cases rule: QRepFlowWorkflow_cases)
  case early
  have False using prepareCycle_Some(1)[OF early] by simp
  then show ?thesis ..
next
  case (paused r)
  note P = prepareCycle_None[OF paused(1)] and F = finishCycle_frame[OF paused(3)]
  have "LastPartition (state r') = LastPartition (startState st)"
    by (subst F(3), simp, subst P(2), simp)
  then show ?thesis using F(4,5) P(3,4) by simp
next
  case (inside r)
  note P = prepareCycle_None[OF inside(1)] and R = replicateCycle_ContinueAsNew[OF inside(3)]
  have "LastPartition (state r') = LastPartition (startState st)"
    by (subst R(3), simp, subst P(2), simp)
  moreover have "InitialCopyOnly cfg" using R(1) by (subst (asm) P(1)) simp
  ultimately show ?thesis using R(2,5) P(4) by auto
next
  case (full r r1)
  note P = prepareCycle_None[OF full(1)] and R = replicateCycle_None[OF full(3)]
    and F = finishCycle_frame[OF full(4)]
  from R(2) obtain ps where ps: "partitions r1 = Some ps"
    and st: "state r1 = (state r)\<lparr>
                 LastPartition := (if ps \<noteq> [] \<and> \<not> fullRefresh r then Some (last ps)
                                   else LastPartition (state r)),
                 NumPartitionsProcessed := NumPartitionsProcessed (state r) + of_nat (length ps),
                 NeedsResync := False\<rparr>"
    by blast
  have lp: "LastPartition (state r) = LastPartition (startState st)" by (subst P(2)) simp
  have ico: "\<not> InitialCopyOnly cfg" using R(1) by (subst (asm) P(1)) simp
  have "LastPartition (state r') = (if ps \<noteq> [] \<and> \<not> fullRefresh r then Some (last ps)
                                   else LastPartition (startState st))"
    by (subst F(3), simp add: st lp)
  then show ?thesis using F(4,5) R(4) P(4) ps ico by simp
qed

text \<open>The theorem at the append-mode example: the cursor ends at \<open>p5\<close>.\<close>

theorem QRepFlowWorkflow_LastPartition_witness:
  "QRepFlowWorkflow (exampleEnv False fivePartitions) exampleConfig None =
     (ContinueAsNew, snd (QRepFlowWorkflow (exampleEnv False fivePartitions) exampleConfig None))
   \<and> LastPartition (state (snd (QRepFlowWorkflow (exampleEnv False fivePartitions)
        exampleConfig None))) = Some (examplePartition ''p5'')"
  using QRepFlowWorkflow_LastPartition [OF append_run(1)] append_run
  by (simp add: fivePartitions_def)

text \<open>
  C2 as stated fails twice. In overwrite mode with full refresh, a cycle entered with the
  cursor at \<open>p0\<close> ends with the cursor still at \<open>p0\<close>, which is not the sentinel. With
  \<^verbatim>\<open>InitialCopyOnly\<close> set and five partitions discovered without full refresh, the
  cursor is still the sentinel afterwards and not the last partition.
\<close>

theorem QRepFlowWorkflow_LastPartition_unchanged:
  "fst (QRepFlowWorkflow (exampleEnv True fivePartitions) overwriteConfig (Some advancedState)) =
     ContinueAsNew
   \<and> fullRefresh (snd (QRepFlowWorkflow (exampleEnv True fivePartitions) overwriteConfig
        (Some advancedState)))
   \<and> LastPartition (state (snd (QRepFlowWorkflow (exampleEnv True fivePartitions) overwriteConfig
        (Some advancedState)))) = Some (examplePartition ''p0'')
   \<and> Some (examplePartition ''p0'') \<noteq> Some InitialLastPartition
   \<and> fst (QRepFlowWorkflow (exampleEnv False fivePartitions) initialCopyConfig None) = ContinueAsNew
   \<and> partitions (snd (QRepFlowWorkflow (exampleEnv False fivePartitions) initialCopyConfig None)) =
        Some fivePartitions
   \<and> \<not> fullRefresh (snd (QRepFlowWorkflow (exampleEnv False fivePartitions) initialCopyConfig None))
   \<and> LastPartition (state (snd (QRepFlowWorkflow (exampleEnv False fivePartitions)
        initialCopyConfig None))) = Some InitialLastPartition
   \<and> Some InitialLastPartition \<noteq> Some (last fivePartitions)"
  using refresh_run initialCopy_run by (simp add: fivePartitions_def)

text \<open>
  C3 fails on the code. In overwrite mode with the full-refresh setting enabled, a cycle
  entered with the cursor at \<open>p0\<close> rewinds its local cursor to the sentinel and hands the
  sentinel to the wait for new rows, but partition discovery is called with
  \<^verbatim>\<open>state.LastPartition\<close>, which is still \<open>p0\<close>.
\<close>

theorem discovery_cursor_not_rewound:
  "fullRefresh (snd (QRepFlowWorkflow (exampleEnv True fivePartitions) overwriteConfig
      (Some advancedState)))
   \<and> lastPartition (snd (QRepFlowWorkflow (exampleEnv True fivePartitions) overwriteConfig
        (Some advancedState))) = Some InitialLastPartition
   \<and> trace (snd (QRepFlowWorkflow (exampleEnv True fivePartitions) overwriteConfig
        (Some advancedState))) =
       [SetQueryHandler ''qrep-flow-state'', SetQueryHandler ''flow-status'',
        ExecuteActivity (SetupQRepMetadataTables overwriteConfig) None,
        StartWaitForNewRows overwriteConfig (Some InitialLastPartition),
        ExecuteGetQRepPartitions overwriteConfig (Some (examplePartition ''p0'')) ''run''
          (Inr fivePartitions),
        StartPartitionWorkflow overwriteConfig
          \<lparr>BatchId = 1, Partitions = map examplePartition [''p1'', ''p2'', ''p3'']\<rparr> ''run'',
        StartPartitionWorkflow overwriteConfig
          \<lparr>BatchId = 2, Partitions = map examplePartition [''p4'', ''p5'']\<rparr> ''run'',
        ExecuteActivity (ConsolidateQRepPartitions overwriteConfig ''run'') None,
        ExecuteActivity (CleanupQRepFlow overwriteConfig) None]
   \<and> examplePartition ''p0'' \<noteq> InitialLastPartition"
  by (simp add: workflow_defs exampleEnv_def fivePartitions_def advancedState_def)

section \<open>The count of processed partitions\<close>

text \<open>
  C4 (as the code has it). For every cycle of \<^verbatim>\<open>QRepFlowWorkflow\<close> that ends without an
  error: when it reached partition discovery and \<^verbatim>\<open>InitialCopyOnly\<close> is not set,
  \<^verbatim>\<open>state.NumPartitionsProcessed\<close> has grown by exactly the number of partitions
  discovered (in 64-bit unsigned arithmetic), once; when \<^verbatim>\<open>InitialCopyOnly\<close> is set, or
  a pause skipped discovery, it is unchanged.
\<close>

theorem QRepFlowWorkflow_NumPartitionsProcessed:
  assumes "QRepFlowWorkflow e cfg st = (ContinueAsNew, r')"
  shows "NumPartitionsProcessed (state r') =
           NumPartitionsProcessed (startState st) +
           (case partitions r' of
              None \<Rightarrow> 0
            | Some ps \<Rightarrow> if InitialCopyOnly cfg then 0 else of_nat (length ps))"
  using assms
proof (cases rule: QRepFlowWorkflow_cases)
  case early
  have False using prepareCycle_Some(1)[OF early] by simp
  then show ?thesis ..
next
  case (paused r)
  note P = prepareCycle_None[OF paused(1)] and F = finishCycle_frame[OF paused(3)]
  have "NumPartitionsProcessed (state r') = NumPartitionsProcessed (startState st)"
    by (subst F(3), simp, subst P(2), simp)
  then show ?thesis using F(4) P(3) by simp
next
  case (inside r)
  note P = prepareCycle_None[OF inside(1)] and R = replicateCycle_ContinueAsNew[OF inside(3)]
  have "NumPartitionsProcessed (state r') = NumPartitionsProcessed (startState st)"
    by (subst R(3), simp, subst P(2), simp)
  moreover have "InitialCopyOnly cfg" using R(1) by (subst (asm) P(1)) simp
  ultimately show ?thesis using R(2) by auto
next
  case (full r r1)
  note P = prepareCycle_None[OF full(1)] and R = replicateCycle_None[OF full(3)]
    and F = finishCycle_frame[OF full(4)]
  from R(2) obtain ps where ps: "partitions r1 = Some ps"
    and st: "state r1 = (state r)\<lparr>
                 LastPartition := (if ps \<noteq> [] \<and> \<not> fullRefresh r then Some (last ps)
                                   else LastPartition (state r)),
                 NumPartitionsProcessed := NumPartitionsProcessed (state r) + of_nat (length ps),
                 NeedsResync := False\<rparr>"
    by blast
  have n: "NumPartitionsProcessed (state r) = NumPartitionsProcessed (startState st)"
    by (subst P(2)) simp
  have ico: "\<not> InitialCopyOnly cfg" using R(1) by (subst (asm) P(1)) simp
  have "NumPartitionsProcessed (state r') = NumPartitionsProcessed (startState st) + of_nat (length ps)"
    by (subst F(3), simp add: st n)
  then show ?thesis using F(4) ps ico by simp
qed

text \<open>The theorem at the append-mode example: the count goes from 0 to 5.\<close>

theorem QRepFlowWorkflow_NumPartitionsProcessed_witness:
  "QRepFlowWorkflow (exampleEnv False fivePartitions) exampleConfig None =
     (ContinueAsNew, snd (QRepFlowWorkflow (exampleEnv False fivePartitions) exampleConfig None))
   \<and> NumPartitionsProcessed (state (snd (QRepFlowWorkflow (exampleEnv False fivePartitions)
        exampleConfig None))) = 5"
  using QRepFlowWorkflow_NumPartitionsProcessed [OF append_run(1)] append_run
  by (simp add: fivePartitions_def startState_def newQRepFlowState_def)

text \<open>
  C4 as stated fails for \<^verbatim>\<open>InitialCopyOnly\<close>: the cycle discovers five partitions and
  ends without an error, and the count is still 0.
\<close>

theorem QRepFlowWorkflow_NumPartitionsProcessed_initial_copy:
  "fst (QRepFlowWorkflow (exampleEnv False fivePartitions) initialCopyConfig None) = ContinueAsNew
   \<and> partitions (snd (QRepFlowWorkflow (exampleEnv False fivePartitions) initialCopyConfig None)) =
        Some fivePartitions
   \<and> length fivePartitions = 5
   \<and> NumPartitionsProcessed (startState None) = 0
   \<and> NumPartitionsProcessed (state (snd (QRepFlowWorkflow (exampleEnv False fivePartitions)
        initialCopyConfig None))) = 0"
  using initialCopy_run by (simp add: fivePartitions_def startState_def newQRepFlowState_def)

section \<open>Resync\<close>

text \<open>
  C9. For every cycle of \<^verbatim>\<open>QRepFlowWorkflow\<close> that ends without an error, reached
  partition discovery (no pause skipped it) and does not have \<^verbatim>\<open>InitialCopyOnly\<close> set,
  \<^verbatim>\<open>state.NeedsResync\<close> is false afterwards, whatever \<^verbatim>\<open>DstTableFullResync\<close> is;
  and when \<^verbatim>\<open>DstTableFullResync\<close> is false, the cycle has created no shadow table and
  renamed nothing.
\<close>

theorem QRepFlowWorkflow_clears_NeedsResync:
  assumes "QRepFlowWorkflow e cfg st = (ContinueAsNew, r')"
    and "partitions r' \<noteq> None" and "\<not> InitialCopyOnly cfg"
  shows "\<not> NeedsResync (state r')
       \<and> (\<not> DstTableFullResync cfg \<longrightarrow>
            filter isCreateTablesFromExisting (trace r') = []
          \<and> filter isRenameTables (trace r') = [])"
  using assms(1)
proof (cases rule: QRepFlowWorkflow_cases)
  case early
  have False using prepareCycle_Some(1)[OF early] by simp
  then show ?thesis ..
next
  case (paused r)
  have "partitions r' = None"
    using prepareCycle_None(3)[OF paused(1)] finishCycle_frame(4)[OF paused(3)] by simp
  then show ?thesis using assms(2) by simp
next
  case (inside r)
  note P = prepareCycle_None[OF inside(1)] and R = replicateCycle_ContinueAsNew[OF inside(3)]
  have "InitialCopyOnly cfg" using R(1) by (subst (asm) P(1)) simp
  then show ?thesis using assms(3) by simp
next
  case (full r r1)
  note P = prepareCycle_None[OF full(1)] and R = replicateCycle_None[OF full(3)]
    and F = finishCycle_frame[OF full(4)]
  from R(2) obtain ps bs where
    st: "state r1 = (state r)\<lparr>
                 LastPartition := (if ps \<noteq> [] \<and> \<not> fullRefresh r then Some (last ps)
                                   else LastPartition (state r)),
                 NumPartitionsProcessed := NumPartitionsProcessed (state r) + of_nat (length ps),
                 NeedsResync := False\<rparr>"
    and tr: "trace r1 = trace r
               @ [ExecuteGetQRepPartitions (config r) (LastPartition (state r)) (runUUID r) (Inr ps)]
               @ map (\<lambda>b. StartPartitionWorkflow (config r) b (runUUID r)) bs
               @ [ExecuteActivity (ConsolidateQRepPartitions (config r) (runUUID r)) None,
                  ExecuteActivity (CleanupQRepFlow (config r)) None]
               @ (if NeedsResync (state r) \<and> DstTableFullResync (config r)
                  then [ExecuteActivity (SetupTableSchema (SourceName (config r))
                          [(DestinationTableIdentifier (config r), DestinationTableIdentifier (config r))]
                          (FlowJobName (config r)) (System (config r)) (Env (config r))
                          (Version (config r))) None,
                        ExecuteActivity (RenameTables (FlowJobName (config r)) (DestinationName (config r))
                          [(DestinationTableIdentifier (config r),
                            TrimSuffix (DestinationTableIdentifier (config r)) ''_peerdb_resync'')]) None]
                  else [])"
    by blast
  have nr: "\<not> NeedsResync (state r')" by (subst F(3), simp add: st)
  have dst: "DstTableFullResync (config r) = DstTableFullResync cfg" by (subst P(1)) simp
  have "filter isCreateTablesFromExisting (trace r') = []
      \<and> filter isRenameTables (trace r') = []" if "\<not> DstTableFullResync cfg"
    using that F(7,8) P(7,8) dst by (simp add: tr)
  then show ?thesis using nr by simp
qed

text \<open>
  The theorem at the append-mode example, which starts from a new state (in which
  \<^verbatim>\<open>NeedsResync\<close> is true) and has \<^verbatim>\<open>DstTableFullResync\<close> unset.
\<close>

theorem QRepFlowWorkflow_clears_NeedsResync_witness:
  "QRepFlowWorkflow (exampleEnv False fivePartitions) exampleConfig None =
     (ContinueAsNew, snd (QRepFlowWorkflow (exampleEnv False fivePartitions) exampleConfig None))
   \<and> partitions (snd (QRepFlowWorkflow (exampleEnv False fivePartitions) exampleConfig None)) \<noteq> None
   \<and> \<not> InitialCopyOnly exampleConfig
   \<and> \<not> DstTableFullResync exampleConfig
   \<and> NeedsResync (startState None)
   \<and> \<not> NeedsResync (state (snd (QRepFlowWorkflow (exampleEnv False fivePartitions)
          exampleConfig None)))
   \<and> filter isCreateTablesFromExisting (trace (snd (QRepFlowWorkflow
        (exampleEnv False fivePartitions) exampleConfig None))) = []
   \<and> filter isRenameTables (trace (snd (QRepFlowWorkflow
        (exampleEnv False fivePartitions) exampleConfig None))) = []"
proof -
  have p: "partitions (snd (QRepFlowWorkflow (exampleEnv False fivePartitions) exampleConfig None))
             \<noteq> None"
    by (simp add: append_run(2))
  have i: "\<not> InitialCopyOnly exampleConfig" by simp
  show ?thesis
    using QRepFlowWorkflow_clears_NeedsResync [OF append_run(1) p i] append_run(1) p
    by (simp add: startState_def newQRepFlowState_def)
qed

text \<open>
  C5 (as the code has it). If at the start of a cycle \<^verbatim>\<open>state.NeedsResync\<close> and
  \<^verbatim>\<open>config.DstTableFullResync\<close> both hold and the destination table identifier is
  \<open>t\<close>, then a cycle that ends without an error, does not have \<^verbatim>\<open>InitialCopyOnly\<close>
  set and was not skipped by a pause signal first creates the shadow table
  \<open>t_peerdb_resync\<close> from \<open>t\<close>, runs discovery with the config identifier set to the shadow
  name, and later renames the shadow to \<open>t\<close>; at the end \<^verbatim>\<open>NeedsResync\<close> is false and
  the config identifier is \<open>t\<close> again. Appending and then trimming the suffix is the
  identity.
\<close>

theorem QRepFlowWorkflow_resync_round_trip:
  assumes "QRepFlowWorkflow e cfg st = (ContinueAsNew, r')"
    and "partitions r' \<noteq> None" and "\<not> InitialCopyOnly cfg"
    and "NeedsResync (startState st)" and "DstTableFullResync cfg"
    and "DestinationTableIdentifier cfg = t"
  shows "(\<exists>pre mid post.
            trace r' = pre
              @ [ExecuteActivity (CreateTablesFromExisting (FlowJobName cfg) (DestinationName cfg)
                   [(t @ ''_peerdb_resync'', t)]) None]
              @ mid
              @ [ExecuteActivity (RenameTables (FlowJobName cfg) (DestinationName cfg)
                   [(t @ ''_peerdb_resync'', t)]) None]
              @ post
          \<and> (\<exists>lp u ps. ExecuteGetQRepPartitions
                 (cfg\<lparr>DestinationTableIdentifier := t @ ''_peerdb_resync''\<rparr>) lp u (Inr ps) \<in> set mid))
       \<and> \<not> NeedsResync (state r')
       \<and> DestinationTableIdentifier (config r') = t
       \<and> TrimSuffix (t @ ''_peerdb_resync'') ''_peerdb_resync'' = t"
  using assms(1)
proof (cases rule: QRepFlowWorkflow_cases)
  case early
  have False using prepareCycle_Some(1)[OF early] by simp
  then show ?thesis ..
next
  case (paused r)
  have "partitions r' = None"
    using prepareCycle_None(3)[OF paused(1)] finishCycle_frame(4)[OF paused(3)] by simp
  then show ?thesis using assms(2) by simp
next
  case (inside r)
  note P = prepareCycle_None[OF inside(1)] and R = replicateCycle_ContinueAsNew[OF inside(3)]
  have "InitialCopyOnly cfg" using R(1) by (subst (asm) P(1)) simp
  then show ?thesis using assms(3) by simp
next
  case (full r r1)
  note P = prepareCycle_None[OF full(1)] and R = replicateCycle_None[OF full(3)]
    and F = finishCycle_frame[OF full(4)]
  let ?create = "ExecuteActivity (CreateTablesFromExisting (FlowJobName cfg) (DestinationName cfg)
                   [(t @ ''_peerdb_resync'', t)]) None"
  let ?rename = "ExecuteActivity (RenameTables (FlowJobName cfg) (DestinationName cfg)
                   [(t @ ''_peerdb_resync'', t)]) None"
  let ?shadow = "cfg\<lparr>DestinationTableIdentifier := t @ ''_peerdb_resync''\<rparr>"
  have cfg: "config r = ?shadow" using P(1) assms(4,5,6) by simp
  have nr0: "NeedsResync (state r)" using assms(4) by (subst P(2)) simp
  from R(2) obtain ps bs where
    st: "state r1 = (state r)\<lparr>
                 LastPartition := (if ps \<noteq> [] \<and> \<not> fullRefresh r then Some (last ps)
                                   else LastPartition (state r)),
                 NumPartitionsProcessed := NumPartitionsProcessed (state r) + of_nat (length ps),
                 NeedsResync := False\<rparr>"
    and tr: "trace r1 = trace r
               @ [ExecuteGetQRepPartitions (config r) (LastPartition (state r)) (runUUID r) (Inr ps)]
               @ map (\<lambda>b. StartPartitionWorkflow (config r) b (runUUID r)) bs
               @ [ExecuteActivity (ConsolidateQRepPartitions (config r) (runUUID r)) None,
                  ExecuteActivity (CleanupQRepFlow (config r)) None]
               @ (if NeedsResync (state r) \<and> DstTableFullResync (config r)
                  then [ExecuteActivity (SetupTableSchema (SourceName (config r))
                          [(DestinationTableIdentifier (config r), DestinationTableIdentifier (config r))]
                          (FlowJobName (config r)) (System (config r)) (Env (config r))
                          (Version (config r))) None,
                        ExecuteActivity (RenameTables (FlowJobName (config r)) (DestinationName (config r))
                          [(DestinationTableIdentifier (config r),
                            TrimSuffix (DestinationTableIdentifier (config r)) ''_peerdb_resync'')]) None]
                  else [])"
    by blast
  have "?create \<in> set (filter isCreateTablesFromExisting (trace r))"
    using P(8) assms(4,5,6) by simp
  then have "?create \<in> set (trace r)" by simp
  then obtain pre mid1 where sp: "trace r = pre @ ?create # mid1" by (meson split_list)
  from F(9) obtain evs where evs: "trace r' = trace r1 @ evs" by blast
  let ?get = "ExecuteGetQRepPartitions ?shadow (LastPartition (state r)) (runUUID r) (Inr ps)"
  let ?mid = "mid1 @ [?get]
               @ map (\<lambda>b. StartPartitionWorkflow ?shadow b (runUUID r)) bs
               @ [ExecuteActivity (ConsolidateQRepPartitions ?shadow (runUUID r)) None,
                  ExecuteActivity (CleanupQRepFlow ?shadow) None,
                  ExecuteActivity (SetupTableSchema (SourceName cfg)
                          [(t @ ''_peerdb_resync'', t @ ''_peerdb_resync'')]
                          (FlowJobName cfg) (System cfg) (Env cfg) (Version cfg)) None]"
  have t': "trace r' = pre @ [?create] @ ?mid @ [?rename] @ evs"
    using evs sp nr0 assms(5) by (simp add: tr cfg)
  have g: "?get \<in> set ?mid" by simp
  have g': "\<exists>lp u ps. ExecuteGetQRepPartitions ?shadow lp u (Inr ps) \<in> set ?mid"
    using g by (intro exI)
  have 1: "\<exists>pre mid post.
            trace r' = pre @ [?create] @ mid @ [?rename] @ post
          \<and> (\<exists>lp u ps. ExecuteGetQRepPartitions ?shadow lp u (Inr ps) \<in> set mid)"
    using t' g' by (intro exI[of _ pre] exI[of _ ?mid] exI[of _ evs] conjI)
  have 2: "\<not> NeedsResync (state r')" by (subst F(3), simp add: st)
  have 3: "DestinationTableIdentifier (config r') = t"
    using F(2) R(3) nr0 assms(5) by (simp add: cfg)
  show ?thesis using 1 2 3 by simp
qed

text \<open>The resync example: a new state, full resync of the table \<open>t\<close>.\<close>

lemma resync_run:
  "QRepFlowWorkflow (exampleEnv False fivePartitions) resyncConfig None =
     (ContinueAsNew, snd (QRepFlowWorkflow (exampleEnv False fivePartitions) resyncConfig None))"
  "partitions (snd (QRepFlowWorkflow (exampleEnv False fivePartitions) resyncConfig None)) \<noteq> None"
  by (simp_all add: prod_eq_iff workflow_defs exampleEnv_def fivePartitions_def)

theorem QRepFlowWorkflow_resync_round_trip_witness:
  "QRepFlowWorkflow (exampleEnv False fivePartitions) resyncConfig None =
     (ContinueAsNew, snd (QRepFlowWorkflow (exampleEnv False fivePartitions) resyncConfig None))
   \<and> partitions (snd (QRepFlowWorkflow (exampleEnv False fivePartitions) resyncConfig None)) \<noteq> None
   \<and> \<not> InitialCopyOnly resyncConfig
   \<and> NeedsResync (startState None)
   \<and> DstTableFullResync resyncConfig
   \<and> DestinationTableIdentifier resyncConfig = ''t''
   \<and> \<not> NeedsResync (state (snd (QRepFlowWorkflow (exampleEnv False fivePartitions)
          resyncConfig None)))
   \<and> DestinationTableIdentifier (config (snd (QRepFlowWorkflow (exampleEnv False fivePartitions)
        resyncConfig None))) = ''t''"
proof -
  have i: "\<not> InitialCopyOnly resyncConfig" and d: "DstTableFullResync resyncConfig"
    and t: "DestinationTableIdentifier resyncConfig = ''t''"
    by simp_all
  have n: "NeedsResync (startState None)" by (simp add: startState_def newQRepFlowState_def)
  show ?thesis
    using QRepFlowWorkflow_resync_round_trip [OF resync_run(1) resync_run(2) i n d t]
      resync_run i n d t
    by simp
qed

text \<open>
  C5 as stated fails when a pause signal arrives during the wait for new rows: the cycle
  ends without an error, after the shadow table was created; discovery, replication and
  the rename are skipped, \<^verbatim>\<open>NeedsResync\<close> is still true and the config that is handed
  on still names the shadow table.
\<close>

theorem QRepFlowWorkflow_resync_paused:
  "fst (QRepFlowWorkflow pausingEnv resyncConfig None) = ContinueAsNew
   \<and> \<not> InitialCopyOnly resyncConfig
   \<and> NeedsResync (startState None)
   \<and> DstTableFullResync resyncConfig
   \<and> DestinationTableIdentifier resyncConfig = ''t''
   \<and> partitions (snd (QRepFlowWorkflow pausingEnv resyncConfig None)) = None
   \<and> NeedsResync (state (snd (QRepFlowWorkflow pausingEnv resyncConfig None)))
   \<and> CurrentFlowStatus (state (snd (QRepFlowWorkflow pausingEnv resyncConfig None))) = STATUS_PAUSED
   \<and> DestinationTableIdentifier (config (snd (QRepFlowWorkflow pausingEnv resyncConfig None))) =
        ''t_peerdb_resync''
   \<and> filter isCreateTablesFromExisting (trace (snd (QRepFlowWorkflow pausingEnv resyncConfig None))) =
        [ExecuteActivity (CreateTablesFromExisting ''flow'' ''dst'' [(''t_peerdb_resync'', ''t'')]) None]
   \<and> filter isRenameTables (trace (snd (QRepFlowWorkflow pausingEnv resyncConfig None))) = []"
  by (simp add: workflow_defs pausingEnv_def exampleEnv_def fivePartitions_def)

section \<open>An empty discovery\<close>

text \<open>
  C6. If partition discovery returns an empty list, then in that cycle no child partition
  workflow is started, and the consolidation step still runs: right after discovery
  \<^verbatim>\<open>ConsolidateQRepPartitions\<close> is executed, and when it succeeds
  \<^verbatim>\<open>CleanupQRepFlow\<close> is executed next.
\<close>

theorem QRepFlowWorkflow_empty_discovery:
  assumes "QRepFlowWorkflow e cfg st = (out, r')" and "partitions r' = Some []"
  shows "startedBatches (trace r') = []
       \<and> (\<exists>pre c lp u res post.
             trace r' = pre @ ExecuteGetQRepPartitions c lp u (Inr [])
                            # ExecuteActivity (ConsolidateQRepPartitions c u) res # post
           \<and> (res = None \<longrightarrow> (\<exists>res' post'. post = ExecuteActivity (CleanupQRepFlow c) res' # post')))"
  using assms(1)
proof (cases rule: QRepFlowWorkflow_cases)
  case early
  have "partitions r' = None" using prepareCycle_Some(2)[OF early] .
  then show ?thesis using assms(2) by simp
next
  case (paused r)
  have "partitions r' = None"
    using prepareCycle_None(3)[OF paused(1)] finishCycle_frame(4)[OF paused(3)] by simp
  then show ?thesis using assms(2) by simp
next
  case (inside r)
  note P = prepareCycle_None[OF inside(1)]
  note R = replicateCycle_empty[OF inside(3) P(3) assms(2)]
  show ?thesis using R P(6) by (simp, blast)
next
  case (full r r1)
  note P = prepareCycle_None[OF full(1)] and F = finishCycle_frame[OF full(4)]
  have p1: "partitions r1 = Some []" using F(4) assms(2) by simp
  note R = replicateCycle_empty[OF full(3) P(3) p1]
  from R(2) obtain res post where
    t: "trace r1 = trace r
           @ ExecuteGetQRepPartitions (config r) (LastPartition (state r)) (runUUID r) (Inr [])
           # ExecuteActivity (ConsolidateQRepPartitions (config r) (runUUID r)) res # post"
    and c: "res = None \<longrightarrow> (\<exists>res' post'. post = ExecuteActivity (CleanupQRepFlow (config r)) res' # post')"
    by blast
  from F(9) obtain evs where evs: "trace r' = trace r1 @ evs" by blast
  have "trace r' = trace r
           @ ExecuteGetQRepPartitions (config r) (LastPartition (state r)) (runUUID r) (Inr [])
           # ExecuteActivity (ConsolidateQRepPartitions (config r) (runUUID r)) res # (post @ evs)"
    using t evs by simp
  moreover have "res = None \<longrightarrow> (\<exists>res' post'. post @ evs = ExecuteActivity (CleanupQRepFlow (config r)) res' # post')"
    using c by auto
  moreover have "startedBatches (trace r') = []" using F(6) R(1) P(6) by simp
  ultimately show ?thesis by blast
qed

text \<open>The theorem at the append-mode example with nothing to discover.\<close>

lemma empty_run:
  "partitions (snd (QRepFlowWorkflow (exampleEnv False []) exampleConfig None)) = Some []"
  "trace (snd (QRepFlowWorkflow (exampleEnv False []) exampleConfig None)) =
     [SetQueryHandler ''qrep-flow-state'', SetQueryHandler ''flow-status'',
      ExecuteActivity (SetupQRepMetadataTables exampleConfig) None,
      StartWaitForNewRows exampleConfig (Some InitialLastPartition),
      ExecuteGetQRepPartitions exampleConfig (Some InitialLastPartition) ''run'' (Inr []),
      ExecuteActivity (ConsolidateQRepPartitions exampleConfig ''run'') None,
      ExecuteActivity (CleanupQRepFlow exampleConfig) None]"
  by (simp_all add: workflow_defs exampleEnv_def)

theorem QRepFlowWorkflow_empty_discovery_witness:
  "partitions (snd (QRepFlowWorkflow (exampleEnv False []) exampleConfig None)) = Some []
   \<and> startedBatches (trace (snd (QRepFlowWorkflow (exampleEnv False []) exampleConfig None))) = []
   \<and> trace (snd (QRepFlowWorkflow (exampleEnv False []) exampleConfig None)) =
       [SetQueryHandler ''qrep-flow-state'', SetQueryHandler ''flow-status'',
        ExecuteActivity (SetupQRepMetadataTables exampleConfig) None,
        StartWaitForNewRows exampleConfig (Some InitialLastPartition),
        ExecuteGetQRepPartitions exampleConfig (Some InitialLastPartition) ''run'' (Inr []),
        ExecuteActivity (ConsolidateQRepPartitions exampleConfig ''run'') None,
        ExecuteActivity (CleanupQRepFlow exampleConfig) None]"
  using QRepFlowWorkflow_empty_discovery [OF surjective_pairing empty_run(1)] empty_run
  by simp

section \<open>One iteration of the wait for new rows\<close>

text \<open>A number of seconds held in 32 bits fits a duration in nanoseconds.\<close>

lemma waitBetweenBatches_fits:
  "0 \<le> int (unat (w :: 32 word)) * Second \<and> int (unat w) * Second < 2 ^ 63"
proof -
  have "unat w < 2 ^ 32" using unsigned_less[of w] by simp
  then have "int (unat w) < 2 ^ 32" by (metis of_nat_less_numeral_power_cancel_iff)
  then have "int (unat w) * Second < 2 ^ 32 * 1000000000" by (simp add: Second_def)
  then show ?thesis by (simp add: Second_def)
qed

text \<open>
  C7. For every config (with its write mode set) and every last partition, when the
  activity \<^verbatim>\<open>QRepHasNewRows\<close> returns a value: one run of
  \<^verbatim>\<open>QRepWaitForNewRowsWorkflow\<close> returns success without sleeping if and only if that
  value is true and full-refresh mode (overwrite mode with the setting enabled) is not in
  effect. Otherwise it sleeps \<^verbatim>\<open>WaitBetweenBatchesSeconds\<close> seconds, 5 seconds when
  that value is not positive, and then, unless the sleep itself was interrupted, returns
  success if full refresh is in effect and else continues as new with the same arguments.
\<close>

theorem QRepWaitForNewRowsWorkflow_iteration:
  assumes "qRepHasNewRowsResult e cfg lp = Inr hasNewRows" and "WriteMode cfg = Some wm"
  shows "let fullRefresh = (WriteType wm = QREP_WRITE_MODE_OVERWRITE
                             \<and> getQRepOverwriteFullRefreshMode e (Env cfg));
             d = (if WaitBetweenBatchesSeconds cfg > 0
                  then int (unat (WaitBetweenBatchesSeconds cfg)) * Second else 5 * Second);
             out = fst (QRepWaitForNewRowsWorkflow e cfg lp);
             tr = snd (QRepWaitForNewRowsWorkflow e cfg lp)
         in ((out = WaitReturned None \<and> (\<forall>d' res. Sleep d' res \<notin> set tr))
               \<longleftrightarrow> (hasNewRows \<and> \<not> fullRefresh))
          \<and> (hasNewRows \<and> \<not> fullRefresh \<longrightarrow>
                tr = [ExecuteQRepHasNewRows cfg lp (Inr hasNewRows)])
          \<and> (\<not> (hasNewRows \<and> \<not> fullRefresh) \<longrightarrow>
                tr = [ExecuteQRepHasNewRows cfg lp (Inr hasNewRows), Sleep d (sleepError e d)]
              \<and> out = (case sleepError e d of
                         Some err \<Rightarrow> WaitReturned (Some err)
                       | None \<Rightarrow> if fullRefresh then WaitReturned None
                                 else WaitContinueAsNew cfg lp))"
  using assms
  by (auto simp: QRepWaitForNewRowsWorkflow_def Let_def split: option.splits)

text \<open>
  The theorem in overwrite mode with full refresh and no configured wait: although new
  rows are reported, the run sleeps five seconds and then returns success.
\<close>

lemma overwriteConfig_wait [simp]: "WaitBetweenBatchesSeconds overwriteConfig = 0"
  by (simp add: overwriteConfig_def exampleConfig_def)

theorem QRepWaitForNewRowsWorkflow_iteration_witness:
  "qRepHasNewRowsResult (exampleEnv True []) overwriteConfig (Some InitialLastPartition) = Inr True
   \<and> WriteMode overwriteConfig = Some \<lparr>WriteType = QREP_WRITE_MODE_OVERWRITE, UpsertKeyColumns = []\<rparr>
   \<and> QRepWaitForNewRowsWorkflow (exampleEnv True []) overwriteConfig (Some InitialLastPartition) =
       (WaitReturned None,
        [ExecuteQRepHasNewRows overwriteConfig (Some InitialLastPartition) (Inr True),
         Sleep 5000000000 None])"
proof -
  have a: "qRepHasNewRowsResult (exampleEnv True []) overwriteConfig (Some InitialLastPartition) = Inr True"
    by (simp add: exampleEnv_def)
  have b: "WriteMode overwriteConfig = Some \<lparr>WriteType = QREP_WRITE_MODE_OVERWRITE, UpsertKeyColumns = []\<rparr>"
    by (simp add: overwriteConfig_def)
  show ?thesis
    using QRepWaitForNewRowsWorkflow_iteration [OF a b] a b
    by (simp add: Let_def prod_eq_iff exampleEnv_def Second_def overwriteConfig_def exampleConfig_def)
qed

section \<open>Resolution of a dynamic setting\<close>

lemma dynLookup_row_value:
  "catalogPoolError s = None \<Longrightarrow> queryRow s key = Row (Some v) d \<Longrightarrow> dynLookup s key = Inr v"
  by (simp add: dynLookup_def)

lemma dynLookup_row_null:
  "catalogPoolError s = None \<Longrightarrow> queryRow s key = Row None d \<Longrightarrow>
     dynLookup s key = Inr (case LookupEnv s key of Some x \<Rightarrow> x | None \<Rightarrow> textString d)"
  by (simp add: dynLookup_def split: option.splits)

lemma dynLookup_no_row:
  "catalogPoolError s = None \<Longrightarrow> queryRow s key = ErrNoRows \<Longrightarrow>
     dynLookup s key =
       (case LookupEnv s key of
          Some x \<Rightarrow> Inr x
        | None \<Rightarrow> Inl (Wrap ''failed to get key'' (Error ''no rows in result set'')))"
  by (simp add: dynLookup_def split: option.splits)

lemma dynLookup_query_error:
  "catalogPoolError s = None \<Longrightarrow> queryRow s key = QueryError err \<Longrightarrow>
     dynLookup s key = Inl (Wrap ''failed to get key'' err)"
  by (simp add: dynLookup_def)

lemma dynLookup_pool_error:
  "catalogPoolError s = Some err \<Longrightarrow>
     dynLookup s key = Inl (Wrap ''failed to get catalog connection pool'' err)"
  by (simp add: dynLookup_def)

lemma dynamicConfBool_fails:
  "isl (dynamicConfBool s key) \<longleftrightarrow>
     isl (dynLookup s key) \<or> (\<exists>v. dynLookup s key = Inr v \<and> ParseBool v = None)"
  by (cases "dynLookup s key") (auto simp: dynamicConfBool_def split: option.splits)

lemma dynamicConfUnsigned_fails:
  "isl (dynamicConfUnsigned s key :: error + 'a::len word) \<longleftrightarrow>
     isl (dynLookup s key) \<or> (\<exists>v. dynLookup s key = Inr v \<and> ParseUint v = None)"
  by (cases "dynLookup s key") (auto simp: dynamicConfUnsigned_def split: option.splits)

lemma dynamicConfSigned_fails:
  "isl (dynamicConfSigned s key :: error + 'a::len word) \<longleftrightarrow>
     isl (dynLookup s key) \<or> (\<exists>v. dynLookup s key = Inr v \<and> ParseInt v = None)"
  by (cases "dynLookup s key") (auto simp: dynamicConfSigned_def split: option.splits)

text \<open>
  C8 (as the code has it). For every setting key, when the catalog connection is
  available: resolution returns the catalog row's value when a row exists with a non-NULL
  value; when the row exists with a NULL value it returns the environment variable if that
  is set, and otherwise the row's default column (the empty string when that is NULL);
  when no row exists it returns the environment variable if that is set and otherwise
  fails, there being no default without a row; it fails when the query fails, and when
  the connection pool is not available. A typed getter (bool, unsigned, signed) fails
  exactly when resolution fails or the resolved value does not parse as the requested
  type.
\<close>

theorem dynLookup_resolution:
  "(catalogPoolError s = None \<longrightarrow>
       (\<forall>v d. queryRow s key = Row (Some v) d \<longrightarrow> dynLookup s key = Inr v)
     \<and> (\<forall>d. queryRow s key = Row None d \<longrightarrow>
           dynLookup s key = Inr (case LookupEnv s key of Some x \<Rightarrow> x | None \<Rightarrow> textString d))
     \<and> (queryRow s key = ErrNoRows \<longrightarrow>
           dynLookup s key =
             (case LookupEnv s key of
                Some x \<Rightarrow> Inr x
              | None \<Rightarrow> Inl (Wrap ''failed to get key'' (Error ''no rows in result set''))))
     \<and> (\<forall>err. queryRow s key = QueryError err \<longrightarrow>
           dynLookup s key = Inl (Wrap ''failed to get key'' err)))
   \<and> (\<forall>err. catalogPoolError s = Some err \<longrightarrow>
         dynLookup s key = Inl (Wrap ''failed to get catalog connection pool'' err))
   \<and> (isl (dynamicConfBool s key) \<longleftrightarrow>
         isl (dynLookup s key) \<or> (\<exists>v. dynLookup s key = Inr v \<and> ParseBool v = None))
   \<and> (isl (dynamicConfUnsigned s key :: error + 'a::len word) \<longleftrightarrow>
         isl (dynLookup s key) \<or> (\<exists>v. dynLookup s key = Inr v \<and> ParseUint v = None))
   \<and> (isl (dynamicConfSigned s key :: error + 'b::len word) \<longleftrightarrow>
         isl (dynLookup s key) \<or> (\<exists>v. dynLookup s key = Inr v \<and> ParseInt v = None))"
proof (intro conjI impI allI)
  show "isl (dynamicConfBool s key) \<longleftrightarrow>
         isl (dynLookup s key) \<or> (\<exists>v. dynLookup s key = Inr v \<and> ParseBool v = None)"
    by (rule dynamicConfBool_fails)
  show "isl (dynamicConfUnsigned s key :: error + 'a::len word) \<longleftrightarrow>
         isl (dynLookup s key) \<or> (\<exists>v. dynLookup s key = Inr v \<and> ParseUint v = None)"
    by (rule dynamicConfUnsigned_fails)
  show "isl (dynamicConfSigned s key :: error + 'b::len word) \<longleftrightarrow>
         isl (dynLookup s key) \<or> (\<exists>v. dynLookup s key = Inr v \<and> ParseInt v = None)"
    by (rule dynamicConfSigned_fails)
qed (simp_all add: dynLookup_row_value dynLookup_row_null dynLookup_no_row dynLookup_query_error
      dynLookup_pool_error)

text \<open>The theorem at a row with the value \<open>true\<close>.\<close>

theorem dynLookup_resolution_witness:
  "catalogPoolError exampleSettings = None
   \<and> queryRow exampleSettings ''PEERDB_BIGQUERY_ENABLE_SYNCED_AT_PARTITIONING_BY_DAYS'' =
       Row (Some ''true'') (Some ''false'')
   \<and> dynLookup exampleSettings ''PEERDB_BIGQUERY_ENABLE_SYNCED_AT_PARTITIONING_BY_DAYS'' = Inr ''true''
   \<and> PeerDBBigQueryEnableSyncedAtPartitioning exampleSettings = Inr True"
proof -
  have a: "catalogPoolError exampleSettings = None"
    and b: "queryRow exampleSettings ''PEERDB_BIGQUERY_ENABLE_SYNCED_AT_PARTITIONING_BY_DAYS'' =
       Row (Some ''true'') (Some ''false'')"
    by (simp_all add: exampleSettings_def)
  have c: "dynLookup exampleSettings ''PEERDB_BIGQUERY_ENABLE_SYNCED_AT_PARTITIONING_BY_DAYS'' = Inr ''true''"
    using dynLookup_resolution [of exampleSettings
      "''PEERDB_BIGQUERY_ENABLE_SYNCED_AT_PARTITIONING_BY_DAYS''"] a b
    by blast
  have d: "PeerDBBigQueryEnableSyncedAtPartitioning exampleSettings = Inr True"
    by (simp add: PeerDBBigQueryEnableSyncedAtPartitioning_def dynamicConfBool_def c ParseBool_def)
  show ?thesis using a b c d by simp
qed

text \<open>
  C8 as stated fails: with no row for the key and no environment variable, the getter
  fails with the lookup error; no typed default is returned and nothing failed to parse.
\<close>

theorem dynamicConfBool_no_row_no_default:
  "catalogPoolError noRowSettings = None
   \<and> queryRow noRowSettings ''PEERDB_BIGQUERY_ENABLE_SYNCED_AT_PARTITIONING_BY_DAYS'' = ErrNoRows
   \<and> LookupEnv noRowSettings ''PEERDB_BIGQUERY_ENABLE_SYNCED_AT_PARTITIONING_BY_DAYS'' = None
   \<and> dynLookup noRowSettings ''PEERDB_BIGQUERY_ENABLE_SYNCED_AT_PARTITIONING_BY_DAYS'' =
       Inl (Wrap ''failed to get key'' (Error ''no rows in result set''))
   \<and> PeerDBBigQueryEnableSyncedAtPartitioning noRowSettings =
       Inl (Wrap ''failed to get key'' (Error ''no rows in result set''))"
  by (simp add: noRowSettings_def PeerDBBigQueryEnableSyncedAtPartitioning_def
      dynamicConfBool_def dynLookup_def)

text \<open>The parsers on a few strings.\<close>

lemma ParseBool_examples:
  "ParseBool ''true'' = Some True" "ParseBool ''F'' = Some False" "ParseBool ''yes'' = None"
  "ParseUint ''42'' = Some 42" "ParseUint ''-1'' = None" "ParseUint [] = None"
  "ParseInt ''-42'' = Some (-42)" "ParseInt ''+7'' = Some 7" "ParseInt ''4x'' = None"
  "ParseInt ''9223372036854775808'' = None" "ParseInt ''-9223372036854775808'' = Some (- 9223372036854775808)"
  "ParseUint ''18446744073709551616'' = None"
  by (simp_all add: ParseBool_def ParseUint_def ParseInt_def digitValue_def)

end
